theory Spec2Isabelle
  imports Complex_Main "HOL-Library.Log_Nat"
begin

section \<open>Double-precision numbers\<close>

text \<open>
  Python floats and NumPy \<open>float64\<close> values are IEEE-754 doubles. A finite double is
  modelled by the rational number it denotes; every arithmetic operation computes the
  exact rational result and rounds it to 53 significant bits, to nearest, ties to even
  (\<open>rd\<close>). The exponent range is not bounded: overflow to infinity, subnormal numbers
  and NaN are outside the model. Comparisons of doubles are exact, so they are the
  comparisons of the rationals. A Python literal such as \<open>0.1\<close> is \<open>rd (1/10)\<close>.
\<close>

type_synonym double = rat

definition rne :: "rat \<Rightarrow> int" where
  "rne q = (let f = \<lfloor>q\<rfloor>; d = q - of_int f in
     if d < 1/2 then f else if 1/2 < d then f + 1 else if even f then f else f + 1)"

text \<open>\<open>expo x\<close> is the binary exponent of \<open>x \<noteq> 0\<close>: \<open>2 powi expo x \<le> \<bar>x\<bar> < 2 powi (expo x + 1)\<close>.\<close>

definition expo :: "rat \<Rightarrow> int" where
  "expo x = (let (p, q) = quotient_of \<bar>x\<bar>; d = bitlen p - bitlen q
             in if \<bar>x\<bar> < 2 powi d then d - 1 else d)"

definition rd :: "rat \<Rightarrow> double" where
  "rd x = (if x = 0 then 0 else
     let u = 2 powi (expo x - 52) in sgn x * (of_int (rne (\<bar>x\<bar> / u)) * u))"

definition fadd :: "double \<Rightarrow> double \<Rightarrow> double" where
  "fadd x y = rd (x + y)"

definition fsub :: "double \<Rightarrow> double \<Rightarrow> double" where
  "fsub x y = rd (x - y)"

definition fmul :: "double \<Rightarrow> double \<Rightarrow> double" where
  "fmul x y = rd (x * y)"

definition fdiv :: "double \<Rightarrow> double \<Rightarrow> double" where
  "fdiv x y = rd (x / y)"

text \<open>
  The counts of the confusion matrix are NumPy \<open>int64\<close> values, modelled as integers
  (a count is at most the number of customers). \<open>to_double\<close> is the conversion of such a
  count to \<open>float64\<close> in mixed arithmetic; it is exact below \<open>2^53\<close>.
\<close>

definition to_double :: "int \<Rightarrow> double" where
  "to_double n = rd (of_int n)"

section \<open>Exceptions\<close>

datatype error = ValueError | KeyError | IndexError | ZeroDivisionError | OverflowError

definition and_then :: "error + 'a \<Rightarrow> ('a \<Rightarrow> error + 'b) \<Rightarrow> error + 'b" where
  "and_then r f = (case r of Inl e \<Rightarrow> Inl e | Inr v \<Rightarrow> f v)"

section \<open>Numbers of Python and of NumPy\<close>

text \<open>
  A number that the caller passes, or that a dictionary holds, is a Python \<open>int\<close>
  (unbounded) or a Python \<open>float\<close>. The default retention cost \<open>50\<close> is an \<open>int\<close>, the
  default success rate \<open>0.25\<close> a \<open>float\<close>. Python arithmetic on two ints is exact; with
  a float operand the int is converted to a double and the operation is the double one.
\<close>

datatype pynum = PyInt int | PyFloat double

fun to_float :: "pynum \<Rightarrow> double" where
  "to_float (PyInt n) = to_double n"
| "to_float (PyFloat x) = x"

fun py_mul :: "pynum \<Rightarrow> pynum \<Rightarrow> pynum" where
  "py_mul (PyInt a) (PyInt b) = PyInt (a * b)"
| "py_mul x y = PyFloat (fmul (to_float x) (to_float y))"

fun py_sub :: "pynum \<Rightarrow> pynum \<Rightarrow> pynum" where
  "py_sub (PyInt a) (PyInt b) = PyInt (a - b)"
| "py_sub x y = PyFloat (fsub (to_float x) (to_float y))"

fun py_neg :: "pynum \<Rightarrow> pynum" where
  "py_neg (PyInt a) = PyInt (- a)"
| "py_neg (PyFloat x) = PyFloat (- x)"

text \<open>
  The counts that come out of the confusion matrix are NumPy \<open>int64\<close> scalars, and
  arithmetic with them gives NumPy scalars: \<open>int64\<close> or \<open>float64\<close>. An \<open>int64\<close> times a
  Python int is an \<open>int64\<close> product, which wraps around modulo \<open>2^64\<close>; a Python int
  that does not fit into \<open>int64\<close> is refused with \<open>OverflowError\<close> (NumPy 2). With a float on
  either side the result is a \<open>float64\<close>, the integer operand converted first. The
  difference of two NumPy scalars follows the same rule.
\<close>

datatype npnum = I64 int | F64 double

definition wrap64 :: "int \<Rightarrow> int" where
  "wrap64 n = (n + 2 ^ 63) mod 2 ^ 64 - 2 ^ 63"

definition in_int64 :: "int \<Rightarrow> bool" where
  "in_int64 n \<longleftrightarrow> - (2 ^ 63) \<le> n \<and> n < 2 ^ 63"


fun np_value :: "npnum \<Rightarrow> rat" where
  "np_value (I64 n) = of_int n"
| "np_value (F64 x) = x"

fun np_mul :: "npnum \<Rightarrow> pynum \<Rightarrow> error + npnum" where
  "np_mul (I64 a) (PyInt c) =
     (if in_int64 c then Inr (I64 (wrap64 (a * c))) else Inl OverflowError)"
| "np_mul (I64 a) (PyFloat y) = Inr (F64 (fmul (to_double a) y))"
| "np_mul (F64 x) (PyInt c) = Inr (F64 (fmul x (to_double c)))"
| "np_mul (F64 x) (PyFloat y) = Inr (F64 (fmul x y))"

fun np_sub :: "npnum \<Rightarrow> npnum \<Rightarrow> npnum" where
  "np_sub (I64 a) (I64 b) = I64 (wrap64 (a - b))"
| "np_sub (I64 a) (F64 y) = F64 (fsub (to_double a) y)"
| "np_sub (F64 x) (I64 b) = F64 (fsub x (to_double b))"
| "np_sub (F64 x) (F64 y) = F64 (fsub x y)"

section \<open>cost\_matrix.py\<close>

text \<open>
  The cost matrix is a Python \<open>dict\<close> from key strings to Python numbers. Looking up a
  key that is missing raises \<open>KeyError\<close>.
\<close>

type_synonym cost_dict = "string \<rightharpoonup> pynum"

definition getitem :: "cost_dict \<Rightarrow> string \<Rightarrow> error + pynum" where
  "getitem d k = (case d k of None \<Rightarrow> Inl KeyError | Some v \<Rightarrow> Inr v)"

definition get_cost_matrix :: "pynum \<Rightarrow> pynum \<Rightarrow> pynum \<Rightarrow> cost_dict" where
  "get_cost_matrix clv retention_cost retention_success_rate =
     (let tp_net_value = py_sub (py_mul clv retention_success_rate) retention_cost;
          fp_net_value = py_neg retention_cost;
          fn_net_value = py_neg (py_mul clv retention_success_rate);
          tn_net_value = PyInt 0
      in [''CLV'' \<mapsto> clv,
          ''RETENTION_COST'' \<mapsto> retention_cost,
          ''RETENTION_SUCCESS_RATE'' \<mapsto> retention_success_rate,
          ''TP'' \<mapsto> tp_net_value,
          ''FP'' \<mapsto> fp_net_value,
          ''FN'' \<mapsto> fn_net_value,
          ''TN'' \<mapsto> tn_net_value])"

section \<open>threshold\_optimization.py\<close>

subsection \<open>The confusion matrix of scikit-learn\<close>

text \<open>
  \<open>sklearn.metrics.confusion_matrix(y_true, y_pred)\<close>, called without \<open>labels\<close>:
  it rejects inputs of different lengths with a \<open>ValueError\<close>; otherwise the labels are
  the sorted distinct values that occur in \<open>y_true\<close> or in \<open>y_pred\<close>, and entry
  \<open>(a, b)\<close> of the square matrix counts the samples with true label \<open>a\<close> and predicted
  label \<open>b\<close>. The matrix has as many rows as there are labels: one row when a single
  class occurs, none for empty inputs.
\<close>

definition unique_labels :: "int list \<Rightarrow> int list \<Rightarrow> int list" where
  "unique_labels y_true y_pred = sorted_list_of_set (set y_true \<union> set y_pred)"

definition cell :: "int list \<Rightarrow> int list \<Rightarrow> int \<Rightarrow> int \<Rightarrow> int" where
  "cell y_true y_pred a b =
     int (length (filter (\<lambda>(t, p). t = a \<and> p = b) (zip y_true y_pred)))"

definition confusion_matrix :: "int list \<Rightarrow> int list \<Rightarrow> error + int list list" where
  "confusion_matrix y_true y_pred =
     (if length y_true \<noteq> length y_pred then Inl ValueError
      else let labels = unique_labels y_true y_pred in
        Inr (map (\<lambda>a. map (\<lambda>b. cell y_true y_pred a b) labels) labels))"

definition ravel :: "int list list \<Rightarrow> int list" where
  "ravel cm = concat cm"

subsection \<open>calculate\_business\_metrics\<close>

text \<open>
  The returned dictionary, as a record. A count is an integer; every other field is the
  number that the NumPy scalar stored there denotes, the value of an \<open>int64\<close> or of a
  \<open>float64\<close> according to the arithmetic that produced it.
\<close>

record metrics =
  Threshold :: double
  Customers_Contacted :: int
  TP :: int
  FP :: int
  FN :: int
  TN :: int
  Precision :: double
  Recall :: double
  Retention_Cost :: double
  Revenue_Saved :: double
  Opportunity_Cost :: double
  Net_ROI :: double

text \<open>Line 32: \<open>y_pred = (y_proba >= threshold).astype(int)\<close>.\<close>

definition predict_at :: "double list \<Rightarrow> double \<Rightarrow> int list" where
  "predict_at y_proba threshold = map (\<lambda>p. if threshold \<le> p then 1 else 0) y_proba"

text \<open>
  The unpacking \<open>tn, fp, fn, tp = confusion_matrix(y_true, y_pred).ravel()\<close> raises a
  \<open>ValueError\<close> unless the flattened matrix has exactly four entries.
\<close>

definition calculate_business_metrics ::
  "int list \<Rightarrow> double list \<Rightarrow> double \<Rightarrow> cost_dict \<Rightarrow> error + metrics" where
  "calculate_business_metrics y_true y_proba threshold cost_matrix =
     (let y_pred = predict_at y_proba threshold in
      and_then (confusion_matrix y_true y_pred) (\<lambda>cm.
      case ravel cm of
        [tn, fp, fn, tp] \<Rightarrow>
          (let customers_contacted = tp + fp in
           and_then (getitem cost_matrix ''RETENTION_COST'') (\<lambda>rc.
           and_then (np_mul (I64 customers_contacted) rc) (\<lambda>total_retention_cost.
           and_then (getitem cost_matrix ''RETENTION_SUCCESS_RATE'') (\<lambda>rate.
           and_then (np_mul (I64 tp) rate) (\<lambda>tp_rate.
           and_then (getitem cost_matrix ''CLV'') (\<lambda>clv.
           and_then (np_mul tp_rate clv) (\<lambda>revenue_saved.
           and_then (getitem cost_matrix ''RETENTION_SUCCESS_RATE'') (\<lambda>rate'.
           and_then (np_mul (I64 fn) rate') (\<lambda>fn_rate.
           and_then (getitem cost_matrix ''CLV'') (\<lambda>clv'.
           and_then (np_mul fn_rate clv') (\<lambda>opportunity_cost.
           let net_roi = np_sub revenue_saved total_retention_cost;
               precision = (if tp + fp > 0 then fdiv (to_double tp) (to_double (tp + fp)) else 0);
               recall = (if tp + fn > 0 then fdiv (to_double tp) (to_double (tp + fn)) else 0)
           in Inr \<lparr> Threshold = threshold,
                    Customers_Contacted = customers_contacted,
                    TP = tp, FP = fp, FN = fn, TN = tn,
                    Precision = precision, Recall = recall,
                    Retention_Cost = np_value total_retention_cost,
                    Revenue_Saved = np_value revenue_saved,
                    Opportunity_Cost = np_value opportunity_cost,
                    Net_ROI = np_value net_roi \<rparr>)))))))))))
      | _ \<Rightarrow> Inl ValueError))"

subsection \<open>threshold\_sweep\<close>

text \<open>
  \<open>numpy.arange(start, stop, step)\<close> on doubles: the length is the ceiling of
  \<open>(stop - start) / step\<close>, computed in double precision (a zero step raises
  \<open>ZeroDivisionError\<close>); the first element is \<open>start\<close>, the second \<open>start + step\<close>, and
  element \<open>i \<ge> 2\<close> is \<open>start + i * delta\<close> where \<open>delta\<close> is the second element minus
  the first.
\<close>

definition arange :: "double \<Rightarrow> double \<Rightarrow> double \<Rightarrow> error + double list" where
  "arange start stop step =
     (if step = 0 then Inl ZeroDivisionError
      else let n = \<lceil>fdiv (fsub stop start) step\<rceil>;
               nxt = fadd start step;
               delta = fsub nxt start
           in Inr (map (\<lambda>i. if i = 0 then start else if i = 1 then nxt
                             else fadd start (fmul (of_nat i) delta)) [0..<nat n]))"

type_synonym sweep_table = "metrics list"

text \<open>The loop \<open>for t in thresholds: ... results.append(metrics)\<close>.\<close>

fun sweep_loop ::
  "int list \<Rightarrow> double list \<Rightarrow> cost_dict \<Rightarrow> double list \<Rightarrow> metrics list \<Rightarrow> error + metrics list" where
  "sweep_loop y_true y_proba cost_matrix [] results = Inr results"
| "sweep_loop y_true y_proba cost_matrix (t # ts) results =
     and_then (calculate_business_metrics y_true y_proba t cost_matrix) (\<lambda>metrics.
       sweep_loop y_true y_proba cost_matrix ts (results @ [metrics]))"

definition threshold_sweep ::
  "int list \<Rightarrow> double list \<Rightarrow> cost_dict \<Rightarrow> double \<Rightarrow> double \<Rightarrow> double \<Rightarrow> error + sweep_table" where
  "threshold_sweep y_true y_proba cost_matrix start end step =
     and_then (arange start end step) (\<lambda>thresholds.
       sweep_loop y_true y_proba cost_matrix thresholds [])"

text \<open>The default arguments \<open>start=0.1, end=0.95, step=0.05\<close>.\<close>

definition default_start :: double where "default_start = rd (1/10)"
definition default_end :: double where "default_end = rd (95/100)"
definition default_step :: double where "default_step = rd (5/100)"

subsection \<open>find\_optimal\_threshold\<close>

text \<open>
  A sweep table is the \<open>DataFrame\<close> built from the list of records, with the default
  index \<open>0, 1, \<dots>\<close>; a table built from no records has no columns. A cell is modelled
  by the number it holds, and integer columns are compared as numbers. A row taken out
  of the table by \<open>.loc\<close> is a series of \<open>float64\<close> values: the conversion of an integer
  cell is exact below \<open>2^53\<close>, and integer cells that it would round are outside the
  model of tables.
\<close>

definition column_of :: "string \<Rightarrow> (metrics \<Rightarrow> rat) option" where
  "column_of name =
     (if name = ''Threshold'' then Some Threshold
      else if name = ''Customers_Contacted'' then Some (\<lambda>r. of_int (Customers_Contacted r))
      else if name = ''TP'' then Some (\<lambda>r. of_int (TP r))
      else if name = ''FP'' then Some (\<lambda>r. of_int (FP r))
      else if name = ''FN'' then Some (\<lambda>r. of_int (FN r))
      else if name = ''TN'' then Some (\<lambda>r. of_int (TN r))
      else if name = ''Precision'' then Some Precision
      else if name = ''Recall'' then Some Recall
      else if name = ''Retention_Cost'' then Some Retention_Cost
      else if name = ''Revenue_Saved'' then Some Revenue_Saved
      else if name = ''Opportunity_Cost'' then Some Opportunity_Cost
      else if name = ''Net_ROI'' then Some Net_ROI
      else None)"

definition getcol :: "sweep_table \<Rightarrow> string \<Rightarrow> error + rat list" where
  "getcol df name =
     (if df = [] then Inl KeyError
      else case column_of name of None \<Rightarrow> Inl KeyError | Some f \<Rightarrow> Inr (map f df))"

text \<open>
  \<open>Series.idxmax()\<close>: a linear scan that keeps the position of the largest value seen
  and replaces it only by a strictly larger one; it raises on an empty series.
\<close>

fun argmax_scan :: "rat list \<Rightarrow> nat \<Rightarrow> rat \<Rightarrow> nat \<Rightarrow> nat" where
  "argmax_scan [] i mp max_ind = max_ind"
| "argmax_scan (x # xs) i mp max_ind =
     (if mp < x then argmax_scan xs (Suc i) x i else argmax_scan xs (Suc i) mp max_ind)"

definition idxmax :: "rat list \<Rightarrow> error + nat" where
  "idxmax col = (case col of [] \<Rightarrow> Inl ValueError | x # xs \<Rightarrow> Inr (argmax_scan xs 1 x 0))"

definition loc :: "sweep_table \<Rightarrow> nat \<Rightarrow> error + metrics" where
  "loc df i = (if i < length df then Inr (df ! i) else Inl KeyError)"

definition find_optimal_threshold :: "sweep_table \<Rightarrow> string \<Rightarrow> error + metrics" where
  "find_optimal_threshold sweep_df metric =
     and_then (getcol sweep_df metric) (\<lambda>col.
     and_then (idxmax col) (\<lambda>optimal_idx.
     loc sweep_df optimal_idx))"

section \<open>roi\_analysis.py\<close>

record model_choice =
  model :: string
  threshold :: double
  roi :: double
  sweep :: sweep_table
  optimal :: metrics

definition compare_models :: "sweep_table \<Rightarrow> sweep_table \<Rightarrow> error + model_choice" where
  "compare_models lr_sweep rf_sweep =
     and_then (getcol lr_sweep ''Net_ROI'') (\<lambda>lr_col.
     and_then (idxmax lr_col) (\<lambda>lr_optimal_idx.
     and_then (getcol rf_sweep ''Net_ROI'') (\<lambda>rf_col.
     and_then (idxmax rf_col) (\<lambda>rf_optimal_idx.
     and_then (loc lr_sweep lr_optimal_idx) (\<lambda>lr_optimal.
     and_then (loc rf_sweep rf_optimal_idx) (\<lambda>rf_optimal.
       if Net_ROI lr_optimal > Net_ROI rf_optimal then
         Inr \<lparr> model = ''Logistic Regression'',
               threshold = Threshold lr_optimal,
               roi = Net_ROI lr_optimal,
               sweep = lr_sweep,
               optimal = lr_optimal \<rparr>
       else
         Inr \<lparr> model = ''Random Forest'',
               threshold = Threshold rf_optimal,
               roi = Net_ROI rf_optimal,
               sweep = rf_sweep,
               optimal = rf_optimal \<rparr>))))))"

section \<open>segment\_strategy.py\<close>

subsection \<open>Dictionaries as objects\<close>

text \<open>
  \<open>segment_threshold_analysis\<close> copies the dictionary it is given and assigns to keys of
  the copy. To say which object an assignment changes, dictionaries live in a store: an
  address is a position in the list (every position below its length is a live
  dictionary), \<open>dict.copy()\<close> allocates the next free address.
\<close>

type_synonym heap = "cost_dict list"

definition dict_copy :: "heap \<Rightarrow> nat \<Rightarrow> heap \<times> nat" where
  "dict_copy h a = (h @ [h ! a], length h)"

definition setitem :: "heap \<Rightarrow> nat \<Rightarrow> string \<Rightarrow> pynum \<Rightarrow> heap" where
  "setitem h a k v = h[a := (h ! a)(k \<mapsto> v)]"

subsection \<open>segment\_threshold\_analysis\<close>

text \<open>
  Lines 85 to 88: the segment-specific cost matrix. The segment CLV is a float (a mean
  of charges times the horizon), so the two recomputed entries are floats.
\<close>

definition segment_cost_matrix :: "heap \<Rightarrow> nat \<Rightarrow> double \<Rightarrow> heap \<times> (error + nat)" where
  "segment_cost_matrix h base_cost_matrix segment_clv =
     (let (h1, seg) = dict_copy h base_cost_matrix;
          h2 = setitem h1 seg ''CLV'' (PyFloat segment_clv)
      in case getitem (h2 ! base_cost_matrix) ''RETENTION_SUCCESS_RATE'' of
           Inl e \<Rightarrow> (h2, Inl e)
         | Inr rate \<Rightarrow>
      (case getitem (h2 ! base_cost_matrix) ''RETENTION_COST'' of
           Inl e \<Rightarrow> (h2, Inl e)
         | Inr rc \<Rightarrow>
      (let h3 = setitem h2 seg ''TP''
                  (py_sub (py_mul (PyFloat segment_clv) rate) rc)
       in case getitem (h3 ! base_cost_matrix) ''RETENTION_SUCCESS_RATE'' of
           Inl e \<Rightarrow> (h3, Inl e)
         | Inr rate' \<Rightarrow>
             (setitem h3 seg ''FN'' (py_neg (py_mul (PyFloat segment_clv) rate')),
              Inr seg))))"

text \<open>
  The two columns of \<open>df_segment\<close> that the function reads are passed as lists. The
  argument \<open>thresholds\<close> is assigned a default when it is \<open>None\<close> and is not used after
  that: the sweep runs with its own default grid.
\<close>

definition segment_threshold_analysis ::
  "heap \<Rightarrow> int list \<Rightarrow> double list \<Rightarrow> double \<Rightarrow> nat \<Rightarrow> double list option
     \<Rightarrow> heap \<times> (error + sweep_table)" where
  "segment_threshold_analysis h y_true y_proba segment_clv base_cost_matrix thresholds =
     (case segment_cost_matrix h base_cost_matrix segment_clv of
        (h', Inl e) \<Rightarrow> (h', Inl e)
      | (h', Inr seg) \<Rightarrow>
          (h', threshold_sweep y_true y_proba (h' ! seg)
                 default_start default_end default_step))"

subsection \<open>compare\_strategies\<close>


text \<open>
  The two tables are the sweeps of the two segments. Their \<open>Net_ROI\<close> columns hold
  \<open>float64\<close> values: \<open>segment_threshold_analysis\<close> runs the sweep with the float segment
  CLV, and a product with a float is a \<open>float64\<close> (lemma \<open>segment_sweep_float\<close> below).
  The sums and the difference of the function are therefore double-precision operations.
\<close>



section \<open>The concrete scenario of the specification\<close>

text \<open>
  Five customers, threshold \<open>0.5\<close>, \<open>CLV = 1200\<close>, retention cost \<open>50\<close>, success
  rate \<open>0.25\<close>; the expected record has \<open>TP = 3\<close>, \<open>TN = 2\<close> and \<open>Net_ROI = 750\<close>.
\<close>

definition scenario_cost_matrix :: cost_dict where
  "scenario_cost_matrix = get_cost_matrix (PyInt 1200) (PyInt 50) (PyFloat (rd (25/100)))"

definition scenario_y_true :: "int list" where
  "scenario_y_true = [1, 0, 1, 0, 1]"

definition scenario_y_proba :: "double list" where
  "scenario_y_proba = [rd (9/10), rd (2/10), rd (6/10), rd (4/10), rd (8/10)]"

definition scenario_record :: metrics where
  "scenario_record =
     \<lparr> Threshold = rd (5/10), Customers_Contacted = 3, TP = 3, FP = 0, FN = 0, TN = 2,
       Precision = 1, Recall = 1, Retention_Cost = 150, Revenue_Saved = 900,
       Opportunity_Cost = 0, Net_ROI = 750 \<rparr>"

text \<open>A boundary case: threshold \<open>0\<close>, one score equal to the threshold.\<close>

definition boundary_record :: metrics where
  "boundary_record =
     \<lparr> Threshold = 0, Customers_Contacted = 2, TP = 1, FP = 1, FN = 0, TN = 0,
       Precision = 1/2, Recall = 1, Retention_Cost = 100, Revenue_Saved = 300,
       Opportunity_Cost = 0, Net_ROI = 200 \<rparr>"

text \<open>Small sweep tables: rows that differ in threshold and net return only.\<close>

definition example_row :: "double \<Rightarrow> double \<Rightarrow> metrics" where
  "example_row t net = scenario_record \<lparr> Threshold := t, Net_ROI := net \<rparr>"

definition tie_sweep :: sweep_table where
  "tie_sweep = [example_row (1/4) 100, example_row (1/2) 300, example_row (3/4) 300]"

definition other_sweep :: sweep_table where
  "other_sweep = [example_row (1/4) 300, example_row (1/2) 20]"




text \<open>The scenario with a retention cost of \<open>2^62\<close>, an \<open>int\<close>: three contacts overflow.\<close>

definition wrapping_cost_matrix :: cost_dict where
  "wrapping_cost_matrix =
     get_cost_matrix (PyInt 1200) (PyInt (2 ^ 62)) (PyFloat (rd (25/100)))"

text \<open>
  The record of that call: the cost is the wrapped product \<open>3 * 2^62 - 2^64\<close>, and the
  net return is \<open>900 + 2^62\<close> rounded to a double.
\<close>

definition wrapping_record :: metrics where
  "wrapping_record =
     \<lparr> Threshold = rd (5/10), Customers_Contacted = 3, TP = 3, FP = 0, FN = 0, TN = 2,
       Precision = 1, Recall = 1, Retention_Cost = - (2 ^ 62), Revenue_Saved = 900,
       Opportunity_Cost = 0, Net_ROI = 2 ^ 62 + 1024 \<rparr>"


text \<open>
  Two customers with scores \<open>0.5\<close> and \<open>0.25\<close> at threshold \<open>0.5\<close>: the first, a churner
  whose score equals the threshold, is the one true positive.
\<close>

definition equal_score_record :: metrics where
  "equal_score_record =
     \<lparr> Threshold = 1/2, Customers_Contacted = 1, TP = 1, FP = 0, FN = 0, TN = 1,
       Precision = 1, Recall = 1, Retention_Cost = 50, Revenue_Saved = 300,
       Opportunity_Cost = 0, Net_ROI = 250 \<rparr>"

section \<open>Properties of the rounding\<close>

lemma rne_cases: "rne q = \<lfloor>q\<rfloor> \<or> rne q = \<lfloor>q\<rfloor> + 1"
  by (simp add: rne_def Let_def)

lemma rne_of_int [simp]: "rne (of_int n) = n"
  by (simp add: rne_def)

lemma rne_mono:
  assumes "q \<le> q'"
  shows "rne q \<le> rne q'"
proof (cases "\<lfloor>q\<rfloor> = \<lfloor>q'\<rfloor>")
  case True
  with assms show ?thesis
    by (auto simp: rne_def Let_def)
next
  case False
  with assms have "\<lfloor>q\<rfloor> < \<lfloor>q'\<rfloor>"
    using floor_mono [of q q'] by linarith
  moreover have "rne q \<le> \<lfloor>q\<rfloor> + 1" using rne_cases [of q] by auto
  moreover have "\<lfloor>q'\<rfloor> \<le> rne q'" using rne_cases [of q'] by auto
  ultimately show ?thesis by linarith
qed

lemma rne_near: "\<bar>q - of_int (rne q)\<bar> \<le> 1/2"
proof -
  have "of_int \<lfloor>q\<rfloor> \<le> q" and "q < of_int \<lfloor>q\<rfloor> + 1" by linarith+
  then show ?thesis
    unfolding rne_def Let_def by (auto simp: abs_if; linarith)
qed

lemma rne_eqI:
  assumes "\<bar>q - of_int m\<bar> < 1/2"
  shows "rne q = m"
proof -
  have "\<bar>q - of_int (rne q)\<bar> \<le> 1/2" by (rule rne_near)
  with assms have "\<bar>(of_int (rne q) :: rat) - of_int m\<bar> < 1" by linarith
  then have "\<bar>rne q - m\<bar> < 1"
    by (metis of_int_abs of_int_diff of_int_less_1_iff)
  then show ?thesis by linarith
qed

lemma two_powi_add: "(2::rat) powi (m + n) = 2 powi m * 2 powi n"
  by (rule power_int_add) simp

lemma two_powi_diff: "(2::rat) powi (m - n) = 2 powi m / 2 powi n"
  by (rule power_int_diff) simp

lemma two_powi_less_iff: "(2::rat) powi m < 2 powi n \<longleftrightarrow> m < n"
proof
  assume l: "(2::rat) powi m < 2 powi n"
  show "m < n"
  proof (rule ccontr)
    assume "\<not> m < n"
    then have "n \<le> m" by simp
    then have "(2::rat) powi n \<le> 2 powi m" by (rule power_int_increasing) simp
    with l show False by simp
  qed
next
  assume "m < n"
  then show "(2::rat) powi m < 2 powi n" by (rule power_int_strict_increasing) simp
qed


lemma bitlen_powi_bounds:
  assumes "0 < n"
  shows "2 powi (bitlen n - 1) \<le> (of_int n :: rat)" and "(of_int n :: rat) < 2 powi bitlen n"
proof -
  from assms have b: "1 \<le> bitlen n" by (auto simp: bitlen_alt_def)
  from bitlen_bounds [OF assms]
  have lo: "2 ^ nat (bitlen n - 1) \<le> n" and hi: "n < 2 ^ nat (bitlen n)" by simp_all
  have "(of_int (2 ^ nat (bitlen n - 1)) :: rat) \<le> of_int n"
    using lo by (simp only: of_int_le_iff)
  then show "2 powi (bitlen n - 1) \<le> (of_int n :: rat)"
    using b by (simp add: power_int_def)
  have "(of_int n :: rat) < of_int (2 ^ nat (bitlen n))"
    using hi by (simp only: of_int_less_iff)
  then show "(of_int n :: rat) < 2 powi bitlen n"
    using b by (simp add: power_int_def)
qed

lemma expo_bounds:
  assumes "x \<noteq> 0"
  shows "2 powi expo x \<le> \<bar>x\<bar>" and "\<bar>x\<bar> < 2 powi (expo x + 1)"
proof -
  obtain p q where pq: "quotient_of \<bar>x\<bar> = (p, q)" by (cases "quotient_of \<bar>x\<bar>")
  then have q: "0 < q" and x: "\<bar>x\<bar> = of_int p / of_int q"
    by (simp_all add: quotient_of_denom_pos quotient_of_div)
  from assms have "0 < \<bar>x\<bar>" by simp
  with x q have p: "0 < p" by (simp add: zero_less_divide_iff)
  let ?d = "bitlen p - bitlen q"
  note bp = bitlen_powi_bounds [OF p] and bq = bitlen_powi_bounds [OF q]
  have qpos: "(0::rat) < of_int q" using q by simp
  have "\<bar>x\<bar> < 2 powi bitlen p / 2 powi (bitlen q - 1)"
    unfolding x using bp(2) bq(1) p by (intro frac_less) simp_all
  also have "\<dots> = 2 powi (?d + 1)"
    by (simp add: two_powi_diff two_powi_add)
  finally have hi: "\<bar>x\<bar> < 2 powi (?d + 1)" .
  have "2 powi (bitlen p - 1) / 2 powi bitlen q \<le> \<bar>x\<bar>"
    unfolding x using bp(1) bq(2) p q by (intro frac_le) simp_all
  moreover have "2 powi (bitlen p - 1) / 2 powi bitlen q = (2::rat) powi (?d - 1)"
    by (simp add: two_powi_diff)
  ultimately have lo: "2 powi (?d - 1) \<le> \<bar>x\<bar>" by simp
  have e: "expo x = (if \<bar>x\<bar> < 2 powi ?d then ?d - 1 else ?d)"
    by (simp add: expo_def pq Let_def)
  show "2 powi expo x \<le> \<bar>x\<bar>" using lo by (simp add: e)
  show "\<bar>x\<bar> < 2 powi (expo x + 1)" using hi by (simp add: e)
qed

lemma expo_unique:
  assumes "2 powi e \<le> \<bar>x\<bar>" and "\<bar>x\<bar> < 2 powi (e + 1)"
  shows "expo x = e"
proof -
  have "(0::rat) < 2 powi e" by simp
  with assms(1) have "0 < \<bar>x\<bar>" by linarith
  then have nz: "x \<noteq> 0" by simp
  note b = expo_bounds [OF nz]
  have "(2::rat) powi e < 2 powi (expo x + 1)" using assms(1) b(2) by linarith
  then have 1: "e < expo x + 1" by (simp add: two_powi_less_iff)
  have "(2::rat) powi expo x < 2 powi (e + 1)" using assms(2) b(1) by linarith
  then have 2: "expo x < e + 1" by (simp add: two_powi_less_iff)
  from 1 2 show ?thesis by linarith
qed

lemma expo_minus [simp]: "expo (- x) = expo x"
  by (simp add: expo_def)

lemma rd_zero [simp]: "rd 0 = 0"
  by (simp add: rd_def)

lemma rd_minus: "rd (- x) = - rd x"
  by (simp add: rd_def Let_def)

lemma rd_pos:
  "0 < x \<Longrightarrow> rd x = of_int (rne (x / 2 powi (expo x - 52))) * 2 powi (expo x - 52)"
  by (simp add: rd_def Let_def)

lemma two_powi_shift52: "2 ^ 52 * (2::rat) powi (e - 52) = 2 powi e"
  using two_powi_add [of 52 "e - 52"] by simp

lemma two_powi_shift53: "2 ^ 53 * (2::rat) powi (e - 52) = 2 powi (e + 1)"
  using two_powi_add [of 53 "e - 52"] by (simp add: add.commute)

lemma rne_two_power: "rne (2 ^ k) = 2 ^ k"
  using rne_of_int [of "2 ^ k"] by simp

lemma scaled_bounds:
  assumes "0 < x"
  shows "2 ^ 52 \<le> x / 2 powi (expo x - 52)" and "x / 2 powi (expo x - 52) < 2 ^ 53"
proof -
  from assms have nz: "x \<noteq> 0" and ax: "\<bar>x\<bar> = x" by simp_all
  note b = expo_bounds [OF nz, unfolded ax]
  have u: "(0::rat) < 2 powi (expo x - 52)" by simp
  from b(1) show "2 ^ 52 \<le> x / 2 powi (expo x - 52)"
    unfolding pos_le_divide_eq [OF u] two_powi_shift52 .
  from b(2) show "x / 2 powi (expo x - 52) < 2 ^ 53"
    unfolding pos_divide_less_eq [OF u] two_powi_shift53 .
qed






lemma rd_eqI:
  assumes "0 < x" and "2 ^ 52 \<le> x / 2 powi e" and "x / 2 powi e < 2 ^ 53"
    and "\<bar>x / 2 powi e - of_int m\<bar> < 1/2"
  shows "rd x = of_int m * 2 powi e"
proof -
  have u: "(0::rat) < 2 powi e" by simp
  have "2 ^ 52 * 2 powi e \<le> x" using assms(2) by (simp add: pos_le_divide_eq [OF u])
  then have lo: "2 powi (e + 52) \<le> \<bar>x\<bar>"
    using assms(1) two_powi_shift52 [of "e + 52"] by simp
  have "x < 2 ^ 53 * 2 powi e" using assms(3) by (simp add: pos_divide_less_eq [OF u])
  then have hi: "\<bar>x\<bar> < 2 powi (e + 52 + 1)"
    using assms(1) two_powi_shift53 [of "e + 52"] by simp
  from expo_unique [OF lo hi] have "expo x - 52 = e" by simp
  with rd_pos [OF assms(1)] rne_eqI [OF assms(4)] show ?thesis by simp
qed

lemma rd_exact_pos:
  assumes "0 < m" and "m < 2 ^ 53"
  shows "rd (of_int m * 2 powi e) = of_int m * 2 powi e"
proof -
  let ?x = "(of_int m :: rat) * 2 powi e"
  let ?k = "expo ?x - 52"
  have x: "0 < ?x" using assms(1) by simp
  then have nz: "?x \<noteq> 0" and ax: "\<bar>?x\<bar> = ?x" using assms(1) by simp_all
  have "(of_int m :: rat) < of_int (2 ^ 53)" using assms(2) by (simp only: of_int_less_iff)
  then have "(of_int m :: rat) < 2 ^ 53" by simp
  then have "?x < 2 ^ 53 * 2 powi e" by (intro mult_strict_right_mono) simp_all
  also have "\<dots> = 2 powi (e + 52 + 1)" using two_powi_shift53 [of "e + 52"] by simp
  finally have "(2::rat) powi expo ?x < 2 powi (e + 52 + 1)"
    using expo_bounds(1) [OF nz] ax by linarith
  then have k: "?k \<le> e" by (simp add: two_powi_less_iff)
  then have "(2::rat) powi e = 2 powi (e - ?k) * 2 powi ?k"
    using two_powi_add [of "e - ?k" ?k] by simp
  moreover have "(2::rat) powi (e - ?k) = of_int (2 ^ nat (e - ?k))"
    using k by (simp add: power_int_def)
  ultimately have e: "(2::rat) powi e = of_int (2 ^ nat (e - ?k)) * 2 powi ?k" by simp
  have "?x / 2 powi ?k = of_int m * (of_int (2 ^ nat (e - ?k)) * 2 powi ?k) / 2 powi ?k"
    by (simp only: e [symmetric])
  also have "\<dots> = of_int (m * 2 ^ nat (e - ?k))" by simp
  finally have "rne (?x / 2 powi ?k) = m * 2 ^ nat (e - ?k)" by (simp only: rne_of_int)
  then have "rd ?x = of_int (m * 2 ^ nat (e - ?k)) * 2 powi ?k"
    by (simp only: rd_pos [OF x])
  also have "\<dots> = of_int m * (of_int (2 ^ nat (e - ?k)) * 2 powi ?k)" by simp
  also have "\<dots> = ?x" by (simp only: e [symmetric])
  finally show ?thesis .
qed

lemma rd_exact:
  assumes "\<bar>m\<bar> < 2 ^ 53"
  shows "rd (of_int m * 2 powi e) = of_int m * 2 powi e"
proof -
  consider "m = 0" | "0 < m" | "m < 0" by linarith
  then show ?thesis
  proof cases
    case 1
    then show ?thesis by simp
  next
    case 2
    with assms show ?thesis by (intro rd_exact_pos) simp_all
  next
    case 3
    with assms have "rd (of_int (- m) * 2 powi e) = of_int (- m) * 2 powi e"
      by (intro rd_exact_pos) simp_all
    then show ?thesis using rd_minus [of "of_int m * 2 powi e"] by simp
  qed
qed

lemma rd_of_int: "\<bar>n\<bar> < 2 ^ 53 \<Longrightarrow> rd (of_int n) = of_int n"
  using rd_exact [of n 0] by simp

lemma rd_two_powi: "rd (2 powi e) = 2 powi e"
  using rd_exact [of 1 e] by simp

lemma rd_idem: "rd (rd x) = rd x"
proof -
  have pos: "rd (rd y) = rd y" if y: "0 < y" for y
  proof -
    let ?u = "(2::rat) powi (expo y - 52)"
    let ?n = "rne (y / ?u)"
    have r: "rd y = of_int ?n * ?u" by (rule rd_pos [OF y])
    have "?n \<le> rne (2 ^ 53)"
      using scaled_bounds(2) [OF y] by (intro rne_mono) simp
    then have le: "?n \<le> 2 ^ 53" by (simp only: rne_two_power)
    have "rne (2 ^ 52) \<le> ?n" using scaled_bounds(1) [OF y] by (rule rne_mono)
    then have ge: "2 ^ 52 \<le> ?n" by (simp only: rne_two_power)
    show ?thesis
    proof (cases "?n = 2 ^ 53")
      case True
      then have "rd y = 2 ^ 53 * ?u" using r by simp
      then have "rd y = 2 powi (expo y + 1)" by (simp only: two_powi_shift53)
      then show ?thesis by (simp only: rd_two_powi)
    next
      case False
      with le ge have "\<bar>?n\<bar> < 2 ^ 53" by simp
      from rd_exact [OF this] r show ?thesis by simp
    qed
  qed
  consider "x = 0" | "0 < x" | "x < 0" by linarith
  then show ?thesis
  proof cases
    case 1
    then show ?thesis by simp
  next
    case 2
    then show ?thesis by (rule pos)
  next
    case 3
    then have "rd (rd (- x)) = rd (- x)" by (intro pos) simp
    then show ?thesis by (simp add: rd_minus)
  qed
qed

lemma rd_numeral: "(numeral k :: int) < 2 ^ 53 \<Longrightarrow> rd (numeral k) = numeral k"
  using rd_of_int [of "numeral k"] by simp

lemma rd_one [simp]: "rd 1 = 1"
  using rd_of_int [of 1] by simp

lemma rd_quarters: "rd (1/4) = 1/4" "rd (1/2) = 1/2" "rd (3/4) = 3/4"
  using rd_exact [of 1 "-2"] rd_exact [of 1 "-1"] rd_exact [of 3 "-2"] by simp_all

section \<open>Properties of calculate\_business\_metrics\<close>

lemma and_then_Inr_iff:
  "and_then r f = Inr y \<longleftrightarrow> (\<exists>v. r = Inr v \<and> f v = Inr y)"
  by (cases r) (simp_all add: and_then_def)

lemma getitem_Inr_iff: "getitem d k = Inr v \<longleftrightarrow> d k = Some v"
  by (simp add: getitem_def split: option.splits)

lemma square_four: "(n::nat) * n = 4 \<Longrightarrow> n = 2"
proof -
  assume h: "n * n = 4"
  have "n < 3"
  proof (rule ccontr)
    assume "\<not> n < 3"
    then have "3 \<le> n" by simp
    then have "3 * 3 \<le> n * n" using mult_le_mono [of 3 n 3 n] by simp
    with h show False by simp
  qed
  then consider "n = 0" | "n = 1" | "n = 2" by linarith
  then show ?thesis using h by cases simp_all
qed

lemma length_square_matrix:
  "length (concat (map (\<lambda>a. map (f a) ls) ls)) = length ls * length ls"
  by (simp add: length_concat comp_def sum_list_triv)

lemma ravel_four:
  assumes "ravel (map (\<lambda>a. map (f a) ls) ls) = [tn, fp, fn, tp]"
  shows "\<exists>a b. ls = [a, b] \<and> tn = f a a \<and> fp = f a b \<and> fn = f b a \<and> tp = f b b"
proof -
  have "length ls * length ls = 4"
    using assms length_square_matrix [of f ls] by (simp add: ravel_def)
  then have "length ls = 2" by (rule square_four)
  then obtain a b where ls: "ls = [a, b]"
    by (metis (no_types, opaque_lifting) One_nat_def Suc_1 length_0_conv length_Suc_conv)
  with assms show ?thesis by (simp add: ravel_def)
qed

lemma unique_labels_set: "set (unique_labels ys ps) = set ys \<union> set ps"
  by (simp add: unique_labels_def)

lemma unique_labels_pair:
  assumes "unique_labels ys ps = [a, b]"
  shows "a < b" and "set ys \<union> set ps = {a, b}"
proof -
  have "sorted (unique_labels ys ps)" and "distinct (unique_labels ys ps)"
    by (simp_all add: unique_labels_def)
  with assms show "a < b" by auto
  from unique_labels_set [of ys ps] assms show "set ys \<union> set ps = {a, b}" by simp
qed

lemma four_cells_total:
  assumes "a \<noteq> b" and "\<forall>(t, p) \<in> set zs. t \<in> {a, b} \<and> p \<in> {a, b}"
  shows "length (filter (\<lambda>(t, p). t = a \<and> p = a) zs)
       + length (filter (\<lambda>(t, p). t = a \<and> p = b) zs)
       + length (filter (\<lambda>(t, p). t = b \<and> p = a) zs)
       + length (filter (\<lambda>(t, p). t = b \<and> p = b) zs) = length zs"
  using assms by (induction zs) auto

lemma calculate_business_metrics_Inr:
  assumes "calculate_business_metrics y_true y_proba t cost_matrix = Inr r"
  obtains a b rc rate clv cost saved missed where
    "length y_true = length y_proba"
    "unique_labels y_true (predict_at y_proba t) = [a, b]"
    "cost_matrix ''RETENTION_COST'' = Some rc"
    "cost_matrix ''RETENTION_SUCCESS_RATE'' = Some rate"
    "cost_matrix ''CLV'' = Some clv"
    "np_mul (I64 (TP r + FP r)) rc = Inr cost"
    "and_then (np_mul (I64 (TP r)) rate) (\<lambda>x. np_mul x clv) = Inr saved"
    "and_then (np_mul (I64 (FN r)) rate) (\<lambda>x. np_mul x clv) = Inr missed"
    "Threshold r = t"
    "TN r = cell y_true (predict_at y_proba t) a a"
    "FP r = cell y_true (predict_at y_proba t) a b"
    "FN r = cell y_true (predict_at y_proba t) b a"
    "TP r = cell y_true (predict_at y_proba t) b b"
    "Customers_Contacted r = TP r + FP r"
    "Retention_Cost r = np_value cost"
    "Revenue_Saved r = np_value saved"
    "Opportunity_Cost r = np_value missed"
    "Net_ROI r = np_value (np_sub saved cost)"
    "Precision r = (if TP r + FP r > 0 then fdiv (to_double (TP r)) (to_double (TP r + FP r)) else 0)"
    "Recall r = (if TP r + FN r > 0 then fdiv (to_double (TP r)) (to_double (TP r + FN r)) else 0)"
proof -
  let ?p = "predict_at y_proba t"
  from assms obtain cm where cm: "confusion_matrix y_true ?p = Inr cm"
    and rest: "(case ravel cm of
        [tn, fp, fn, tp] \<Rightarrow>
          (let customers_contacted = tp + fp in
           and_then (getitem cost_matrix ''RETENTION_COST'') (\<lambda>rc.
           and_then (np_mul (I64 customers_contacted) rc) (\<lambda>total_retention_cost.
           and_then (getitem cost_matrix ''RETENTION_SUCCESS_RATE'') (\<lambda>rate.
           and_then (np_mul (I64 tp) rate) (\<lambda>tp_rate.
           and_then (getitem cost_matrix ''CLV'') (\<lambda>clv.
           and_then (np_mul tp_rate clv) (\<lambda>revenue_saved.
           and_then (getitem cost_matrix ''RETENTION_SUCCESS_RATE'') (\<lambda>rate'.
           and_then (np_mul (I64 fn) rate') (\<lambda>fn_rate.
           and_then (getitem cost_matrix ''CLV'') (\<lambda>clv'.
           and_then (np_mul fn_rate clv') (\<lambda>opportunity_cost.
           let net_roi = np_sub revenue_saved total_retention_cost;
               precision = (if tp + fp > 0 then fdiv (to_double tp) (to_double (tp + fp)) else 0);
               recall = (if tp + fn > 0 then fdiv (to_double tp) (to_double (tp + fn)) else 0)
           in Inr \<lparr> Threshold = t,
                    Customers_Contacted = customers_contacted,
                    TP = tp, FP = fp, FN = fn, TN = tn,
                    Precision = precision, Recall = recall,
                    Retention_Cost = np_value total_retention_cost,
                    Revenue_Saved = np_value revenue_saved,
                    Opportunity_Cost = np_value opportunity_cost,
                    Net_ROI = np_value net_roi \<rparr>)))))))))))
      | _ \<Rightarrow> Inl ValueError) = Inr r"
    unfolding calculate_business_metrics_def Let_def and_then_Inr_iff by blast
  from cm have len: "length y_true = length ?p"
    and cmeq: "cm = map (\<lambda>a. map (cell y_true ?p a) (unique_labels y_true ?p)) (unique_labels y_true ?p)"
    by (auto simp: confusion_matrix_def Let_def split: if_splits)
  from rest obtain tn fp fn tp where rv: "ravel cm = [tn, fp, fn, tp]"
    by (auto split: list.splits)
  from ravel_four [OF rv [unfolded cmeq]] obtain a b where
    ab: "unique_labels y_true ?p = [a, b]" and
    cells: "tn = cell y_true ?p a a" "fp = cell y_true ?p a b"
           "fn = cell y_true ?p b a" "tp = cell y_true ?p b b"
    by blast
  from rest rv obtain rc rate clv cost tp_rate saved fn_rate missed where
    keys: "cost_matrix ''RETENTION_COST'' = Some rc"
          "cost_matrix ''RETENTION_SUCCESS_RATE'' = Some rate"
          "cost_matrix ''CLV'' = Some clv"
    and m: "np_mul (I64 (tp + fp)) rc = Inr cost"
           "np_mul (I64 tp) rate = Inr tp_rate" "np_mul tp_rate clv = Inr saved"
           "np_mul (I64 fn) rate = Inr fn_rate" "np_mul fn_rate clv = Inr missed"
    and r: "r = \<lparr> Threshold = t,
                    Customers_Contacted = tp + fp,
                    TP = tp, FP = fp, FN = fn, TN = tn,
                    Precision = (if tp + fp > 0 then fdiv (to_double tp) (to_double (tp + fp)) else 0),
                    Recall = (if tp + fn > 0 then fdiv (to_double tp) (to_double (tp + fn)) else 0),
                    Retention_Cost = np_value cost,
                    Revenue_Saved = np_value saved,
                    Opportunity_Cost = np_value missed,
                    Net_ROI = np_value (np_sub saved cost) \<rparr>"
    by (auto simp: Let_def and_then_Inr_iff getitem_Inr_iff)
  have s: "and_then (np_mul (I64 tp) rate) (\<lambda>x. np_mul x clv) = Inr saved"
          "and_then (np_mul (I64 fn) rate) (\<lambda>x. np_mul x clv) = Inr missed"
    by (simp_all add: and_then_def m)
  show thesis
    by (rule that [OF _ ab keys, of cost saved missed])
       (use len r cells m(1) s in \<open>simp_all add: predict_at_def\<close>)
qed

lemma cell_nonneg: "0 \<le> cell ys ps a b"
  by (simp add: cell_def)

lemma cells_total:
  assumes "unique_labels ys ps = [a, b]"
  shows "cell ys ps a a + cell ys ps a b + cell ys ps b a + cell ys ps b b
           = int (length (zip ys ps))"
proof -
  from unique_labels_pair [OF assms] have ne: "a \<noteq> b" and s: "set ys \<union> set ps = {a, b}"
    by auto
  have "\<forall>(t, p) \<in> set (zip ys ps). t \<in> {a, b} \<and> p \<in> {a, b}"
    using s by (auto dest: set_zip_leftD set_zip_rightD)
  from four_cells_total [OF ne this] show ?thesis
    unfolding cell_def by linarith
qed

lemma predicted_positive_count:
  assumes "length ys = length ps" and "set ys \<subseteq> {a, b}" and "a \<noteq> b"
  shows "cell ys ps b c + cell ys ps a c = int (length (filter (\<lambda>p. p = c) ps))"
  using assms unfolding cell_def
proof (induction ys ps rule: list_induct2)
  case Nil
  then show ?case by simp
next
  case (Cons y ys p ps)
  then show ?case by auto
qed

lemma predict_at_positive_count:
  "length (filter (\<lambda>p. p = 1) (predict_at y_proba t)) = length (filter (\<lambda>p. t \<le> p) y_proba)"
  by (induction y_proba) (simp_all add: predict_at_def)

lemma predict_at_nth:
  "i < length y_proba \<Longrightarrow> predict_at y_proba t ! i = (if t \<le> y_proba ! i then 1 else 0)"
  by (simp add: predict_at_def)

lemma binary_labels:
  assumes "unique_labels ys ps = [a, b]" and "set ys \<subseteq> {0, 1}" and "set ps \<subseteq> {0, 1}"
  shows "a = 0 \<and> b = 1"
proof -
  from unique_labels_pair [OF assms(1)] have "a < b" and "{a, b} \<subseteq> {0, 1}"
    using assms(2,3) by auto
  then show ?thesis by auto
qed

lemma predict_at_binary: "set (predict_at y_proba t) \<subseteq> {0, 1}"
  by (auto simp: predict_at_def)

lemma scenario_scores:
  "rd (9/10) = 8106479329266893 / 9007199254740992"
  "rd (1/5) = 3602879701896397 / 18014398509481984"
  "rd (3/5) = 5404319552844595 / 9007199254740992"
  "rd (2/5) = 3602879701896397 / 9007199254740992"
  "rd (4/5) = 3602879701896397 / 4503599627370496"
  using rd_eqI [of "9/10" "-53" 8106479329266893]
        rd_eqI [of "1/5" "-55" 7205759403792794]
        rd_eqI [of "3/5" "-53" 5404319552844595]
        rd_eqI [of "2/5" "-54" 7205759403792794]
        rd_eqI [of "4/5" "-53" 7205759403792794]
  by simp_all

lemma binary_labels_sorted: "sorted_list_of_set {0, 1 :: int} = [0, 1]"
  by code_simp

lemma calculate_business_metrics_binary:
  assumes len: "length y_true = length y_proba"
    and labels: "set y_true \<union> set (predict_at y_proba t) = {0, 1}"
    and rc: "cost_matrix ''RETENTION_COST'' = Some rc"
    and rate: "cost_matrix ''RETENTION_SUCCESS_RATE'' = Some rate"
    and clv: "cost_matrix ''CLV'' = Some clv"
  shows "calculate_business_metrics y_true y_proba t cost_matrix =
    (let y_pred = predict_at y_proba t;
         tn = cell y_true y_pred 0 0; fp = cell y_true y_pred 0 1;
         fn = cell y_true y_pred 1 0; tp = cell y_true y_pred 1 1
     in and_then (np_mul (I64 (tp + fp)) rc) (\<lambda>cost.
        and_then (and_then (np_mul (I64 tp) rate) (\<lambda>x. np_mul x clv)) (\<lambda>saved.
        and_then (and_then (np_mul (I64 fn) rate) (\<lambda>x. np_mul x clv)) (\<lambda>missed.
          Inr \<lparr> Threshold = t, Customers_Contacted = tp + fp,
                TP = tp, FP = fp, FN = fn, TN = tn,
                Precision = (if tp + fp > 0 then fdiv (to_double tp) (to_double (tp + fp)) else 0),
                Recall = (if tp + fn > 0 then fdiv (to_double tp) (to_double (tp + fn)) else 0),
                Retention_Cost = np_value cost,
                Revenue_Saved = np_value saved,
                Opportunity_Cost = np_value missed,
                Net_ROI = np_value (np_sub saved cost) \<rparr>))))"
proof -
  have l: "unique_labels y_true (predict_at y_proba t) = [0, 1]"
    by (simp only: unique_labels_def labels binary_labels_sorted)
  have n: "length y_true = length (predict_at y_proba t)"
    using len by (simp add: predict_at_def)
  show ?thesis
    unfolding calculate_business_metrics_def Let_def confusion_matrix_def l
    using n by (simp add: and_then_def getitem_def ravel_def rc rate clv split: sum.splits)
qed


lemma to_double_numeral: "(numeral k :: int) < 2 ^ 53 \<Longrightarrow> to_double (numeral k) = numeral k"
  by (simp add: to_double_def rd_numeral)

lemma to_double_small [simp]: "to_double 0 = 0" "to_double 1 = 1"
  by (simp_all add: to_double_def)

lemma in_int64_numeral: "in_int64 (numeral k) \<longleftrightarrow> (numeral k :: int) < 2 ^ 63"
  by (simp add: in_int64_def)

lemma two_classes_labels:
  assumes "set y_true = {0, 1}"
  shows "set y_true \<union> set (predict_at y_proba t) = {0, 1}"
  using assms predict_at_binary [of y_proba t] by auto

lemma scenario_keys:
  "scenario_cost_matrix ''RETENTION_COST'' = Some (PyInt 50)"
  "scenario_cost_matrix ''RETENTION_SUCCESS_RATE'' = Some (PyFloat (1/4))"
  "scenario_cost_matrix ''CLV'' = Some (PyInt 1200)"
  by (simp_all add: scenario_cost_matrix_def get_cost_matrix_def rd_quarters)


lemma scenario_evaluates:
  "calculate_business_metrics scenario_y_true scenario_y_proba (rd (5/10)) scenario_cost_matrix
     = Inr scenario_record"
proof -
  have p: "predict_at scenario_y_proba (rd (5/10)) = [1, 0, 1, 0, 1]"
    by (simp add: predict_at_def scenario_y_proba_def scenario_scores rd_quarters)
  have "set scenario_y_true \<union> set (predict_at scenario_y_proba (rd (5/10))) = {0, 1}"
    by (rule two_classes_labels) (auto simp: scenario_y_true_def)
  from calculate_business_metrics_binary [OF _ this scenario_keys]
  show ?thesis
    unfolding p
    by (simp add: scenario_y_true_def scenario_y_proba_def cell_def scenario_record_def
          and_then_def in_int64_def wrap64_def
          fmul_def fsub_def fdiv_def to_double_numeral rd_numeral rd_quarters)
qed

lemma boundary_evaluates:
  "calculate_business_metrics [1, 0] [0, 1/2] 0 scenario_cost_matrix = Inr boundary_record"
proof -
  have "set [1, 0 :: int] \<union> set (predict_at [0, 1/2] 0) = {0, 1}"
    by (rule two_classes_labels) auto
  from calculate_business_metrics_binary [OF _ this scenario_keys]
  show ?thesis
    by (simp add: predict_at_def cell_def boundary_record_def
          and_then_def in_int64_def wrap64_def
          fmul_def fsub_def fdiv_def to_double_numeral rd_numeral rd_quarters)
qed

lemma cell_predict_at:
  "cell y_true (predict_at y_proba t) a b =
     int (length (filter (\<lambda>(y, p). y = a \<and> (if t \<le> p then 1 else 0) = b)
                    (zip y_true y_proba)))"
  by (simp add: cell_def predict_at_def zip_map2 filter_map comp_def case_prod_unfold)

lemma cells_by_score:
  "cell y_true (predict_at y_proba t) a 1 =
     int (length (filter (\<lambda>(y, p). y = a \<and> t \<le> p) (zip y_true y_proba)))"
  "cell y_true (predict_at y_proba t) a 0 =
     int (length (filter (\<lambda>(y, p). y = a \<and> p < t) (zip y_true y_proba)))"
proof -
  have 1: "(\<lambda>(y, p). y = a \<and> (if t \<le> p then 1 else 0) = (1::int)) = (\<lambda>(y, p). y = a \<and> t \<le> p)"
    by (auto simp: fun_eq_iff)
  have 0: "(\<lambda>(y, p). y = a \<and> (if t \<le> p then 1 else 0) = (0::int)) = (\<lambda>(y, p). y = a \<and> p < t)"
    by (auto simp: fun_eq_iff)
  show "cell y_true (predict_at y_proba t) a 1 =
     int (length (filter (\<lambda>(y, p). y = a \<and> t \<le> p) (zip y_true y_proba)))"
    by (simp only: cell_predict_at 1)
  show "cell y_true (predict_at y_proba t) a 0 =
     int (length (filter (\<lambda>(y, p). y = a \<and> p < t) (zip y_true y_proba)))"
    by (simp only: cell_predict_at 0)
qed

lemma wrapping_keys:
  "wrapping_cost_matrix ''RETENTION_COST'' = Some (PyInt (2 ^ 62))"
  "wrapping_cost_matrix ''RETENTION_SUCCESS_RATE'' = Some (PyFloat (1/4))"
  "wrapping_cost_matrix ''CLV'' = Some (PyInt 1200)"
  by (simp_all add: wrapping_cost_matrix_def get_cost_matrix_def rd_quarters)

lemma wrap64_id: "in_int64 n \<Longrightarrow> wrap64 n = n"
  by (simp add: in_int64_def wrap64_def)

lemma in_int64_wrap64 [simp]: "in_int64 (wrap64 n)"
  by (simp add: in_int64_def wrap64_def)

lemma np_mul_F64: "np_mul (F64 x) v = Inr (F64 (fmul x (to_float v)))"
  by (cases v) simp_all

lemma wrapped_difference: "fsub 900 (to_double (- (2 ^ 62))) = 2 ^ 62 + 1024"
proof -
  have "to_double (- (2 ^ 62)) = - (2 ^ 62)"
    using rd_exact [of "- 1" 62] by (simp add: to_double_def)
  moreover have "rd (900 + 2 ^ 62) = 2 ^ 62 + 1024"
    using rd_eqI [of "900 + 2 ^ 62" 10 4503599627370497] by simp
  ultimately show ?thesis by (simp add: fsub_def)
qed

lemma wrapping_evaluates:
  "calculate_business_metrics scenario_y_true scenario_y_proba (rd (5/10)) wrapping_cost_matrix
     = Inr wrapping_record"
proof -
  have p: "predict_at scenario_y_proba (rd (5/10)) = [1, 0, 1, 0, 1]"
    by (simp add: predict_at_def scenario_y_proba_def scenario_scores rd_quarters)
  have "set scenario_y_true \<union> set (predict_at scenario_y_proba (rd (5/10))) = {0, 1}"
    by (rule two_classes_labels) (auto simp: scenario_y_true_def)
  from calculate_business_metrics_binary [OF _ this wrapping_keys]
  have "calculate_business_metrics scenario_y_true scenario_y_proba (rd (5/10))
          wrapping_cost_matrix =
        Inr \<lparr> Threshold = rd (5/10), Customers_Contacted = 3, TP = 3, FP = 0, FN = 0, TN = 2,
              Precision = 1, Recall = 1, Retention_Cost = - (2 ^ 62), Revenue_Saved = 900,
              Opportunity_Cost = 0, Net_ROI = fsub 900 (to_double (- (2 ^ 62))) \<rparr>"
    unfolding p
    by (simp add: scenario_y_true_def scenario_y_proba_def cell_def
          and_then_def in_int64_def wrap64_def
          fmul_def fdiv_def to_double_numeral rd_numeral rd_quarters)
  then show ?thesis unfolding wrapped_difference wrapping_record_def .
qed

lemma equal_score_evaluates:
  "calculate_business_metrics [1, 0] [1/2, 1/4] (1/2) scenario_cost_matrix
     = Inr equal_score_record"
proof -
  have "set [1, 0 :: int] \<union> set (predict_at [1/2, 1/4] (1/2)) = {0, 1}"
    by (rule two_classes_labels) auto
  from calculate_business_metrics_binary [OF _ this scenario_keys]
  show ?thesis
    by (simp add: predict_at_def cell_def equal_score_record_def
          and_then_def in_int64_def wrap64_def
          fmul_def fsub_def fdiv_def to_double_numeral rd_numeral rd_quarters)
qed

section \<open>Claims about calculate\_business\_metrics\<close>

text \<open>
  Claim C1 states \<open>Retention_Cost = (TP + FP) * RETENTION_COST\<close> for every call. With
  the integer retention cost \<open>2^62\<close> and three customers contacted the product is
  \<open>3 * 2^62\<close>, which is not an \<open>int64\<close>; the record holds \<open>-2^62\<close>.
\<close>

theorem retention_cost_wraps_counterexample:
  "calculate_business_metrics scenario_y_true scenario_y_proba (rd (5/10)) wrapping_cost_matrix
     = Inr wrapping_record
   \<and> wrapping_cost_matrix ''RETENTION_COST'' = Some (PyInt (2 ^ 62))
   \<and> TP wrapping_record + FP wrapping_record = 3
   \<and> Retention_Cost wrapping_record = - (2 ^ 62)
   \<and> Retention_Cost wrapping_record
       \<noteq> of_int ((TP wrapping_record + FP wrapping_record) * 2 ^ 62)"
proof -
  have "TP wrapping_record + FP wrapping_record = 3"
    "Retention_Cost wrapping_record = - (2 ^ 62)"
    "Retention_Cost wrapping_record
       \<noteq> of_int ((TP wrapping_record + FP wrapping_record) * 2 ^ 62)"
    by (simp_all add: wrapping_record_def)
  with wrapping_evaluates wrapping_keys(1) show ?thesis by (intro conjI) (assumption | rule refl)+
qed

text \<open>
  Claim C1, amended. Whenever \<open>calculate_business_metrics\<close> returns a record for a cost
  matrix with retention cost \<open>rc\<close>, success rate \<open>rate\<close> and lifetime value \<open>clv\<close>, the
  record's \<open>Retention_Cost\<close> is the product \<open>(TP + FP) * rc\<close>, its \<open>Revenue_Saved\<close> is
  \<open>(TP * rate) * clv\<close>, its \<open>Opportunity_Cost\<close> is \<open>(FN * rate) * clv\<close> and its \<open>Net_ROI\<close> is
  \<open>Revenue_Saved - Retention_Cost\<close> (the opportunity cost is reported and not
  subtracted), each operation being the one NumPy performs on its operands:
  \<^item> between an \<open>int64\<close> and an integer entry, which then lies within \<open>int64\<close>, the
    integer operation wrapped around modulo \<open>2^64\<close>;
  \<^item> as soon as one operand is a float, the double-precision operation, an integer
    operand converted to a double first.

  The conjuncts after the first spell this out by the types of the three entries. The
  last one says that for integer entries the four equations of the claim hold in the
  integers as long as no operation leaves \<open>int64\<close>.
\<close>

theorem metrics_formulas:
  assumes "calculate_business_metrics y_true y_proba t cost_matrix = Inr r"
    and "cost_matrix ''RETENTION_COST'' = Some rc"
    and "cost_matrix ''RETENTION_SUCCESS_RATE'' = Some rate"
    and "cost_matrix ''CLV'' = Some clv"
  shows "(\<exists>cost saved missed.
            np_mul (I64 (TP r + FP r)) rc = Inr cost
          \<and> and_then (np_mul (I64 (TP r)) rate) (\<lambda>x. np_mul x clv) = Inr saved
          \<and> and_then (np_mul (I64 (FN r)) rate) (\<lambda>x. np_mul x clv) = Inr missed
          \<and> Retention_Cost r = np_value cost
          \<and> Revenue_Saved r = np_value saved
          \<and> Opportunity_Cost r = np_value missed
          \<and> Net_ROI r = np_value (np_sub saved cost))
       \<and> (\<forall>c. rc = PyInt c \<longrightarrow>
             in_int64 c \<and> Retention_Cost r = of_int (wrap64 ((TP r + FP r) * c)))
       \<and> (\<forall>x. rc = PyFloat x \<longrightarrow> Retention_Cost r = fmul (to_double (TP r + FP r)) x)
       \<and> (\<forall>y. rate = PyFloat y \<longrightarrow>
             Revenue_Saved r = fmul (fmul (to_double (TP r)) y) (to_float clv)
           \<and> Opportunity_Cost r = fmul (fmul (to_double (FN r)) y) (to_float clv))
       \<and> (\<forall>a z. rate = PyInt a \<and> clv = PyFloat z \<longrightarrow>
             in_int64 a
           \<and> Revenue_Saved r = fmul (to_double (wrap64 (TP r * a))) z
           \<and> Opportunity_Cost r = fmul (to_double (wrap64 (FN r * a))) z)
       \<and> (\<forall>a b. rate = PyInt a \<and> clv = PyInt b \<longrightarrow>
             in_int64 a \<and> in_int64 b
           \<and> Revenue_Saved r = of_int (wrap64 (wrap64 (TP r * a) * b))
           \<and> Opportunity_Cost r = of_int (wrap64 (wrap64 (FN r * a) * b)))
       \<and> ((\<exists>x. rc = PyFloat x) \<or> (\<exists>y. rate = PyFloat y) \<or> (\<exists>z. clv = PyFloat z) \<longrightarrow>
             Net_ROI r = fsub (rd (Revenue_Saved r)) (rd (Retention_Cost r)))
       \<and> (\<forall>c a b. rc = PyInt c \<and> rate = PyInt a \<and> clv = PyInt b \<longrightarrow>
             (\<exists>saved cost. Revenue_Saved r = of_int saved \<and> Retention_Cost r = of_int cost
                \<and> Net_ROI r = of_int (wrap64 (saved - cost))))
       \<and> (\<forall>c a b. rc = PyInt c \<and> rate = PyInt a \<and> clv = PyInt b
             \<and> in_int64 ((TP r + FP r) * c)
             \<and> in_int64 (TP r * a) \<and> in_int64 (TP r * a * b)
             \<and> in_int64 (FN r * a) \<and> in_int64 (FN r * a * b)
             \<and> in_int64 (TP r * a * b - (TP r + FP r) * c) \<longrightarrow>
             Retention_Cost r = of_int ((TP r + FP r) * c)
           \<and> Revenue_Saved r = of_int (TP r * a * b)
           \<and> Opportunity_Cost r = of_int (FN r * a * b)
           \<and> Net_ROI r = Revenue_Saved r - Retention_Cost r)"
proof -
  from assms(1) obtain rc' rate' clv' cost saved missed where
    k: "cost_matrix ''RETENTION_COST'' = Some rc'"
       "cost_matrix ''RETENTION_SUCCESS_RATE'' = Some rate'"
       "cost_matrix ''CLV'' = Some clv'"
    and m: "np_mul (I64 (TP r + FP r)) rc' = Inr cost"
       "and_then (np_mul (I64 (TP r)) rate') (\<lambda>x. np_mul x clv') = Inr saved"
       "and_then (np_mul (I64 (FN r)) rate') (\<lambda>x. np_mul x clv') = Inr missed"
    and f: "Retention_Cost r = np_value cost" "Revenue_Saved r = np_value saved"
       "Opportunity_Cost r = np_value missed" "Net_ROI r = np_value (np_sub saved cost)"
    by (rule calculate_business_metrics_Inr)
  from k assms(2-4) have e: "rc' = rc" "rate' = rate" "clv' = clv" by simp_all
  note m = m [unfolded e]
  have 1: "\<exists>cost saved missed.
            np_mul (I64 (TP r + FP r)) rc = Inr cost
          \<and> and_then (np_mul (I64 (TP r)) rate) (\<lambda>x. np_mul x clv) = Inr saved
          \<and> and_then (np_mul (I64 (FN r)) rate) (\<lambda>x. np_mul x clv) = Inr missed
          \<and> Retention_Cost r = np_value cost
          \<and> Revenue_Saved r = np_value saved
          \<and> Opportunity_Cost r = np_value missed
          \<and> Net_ROI r = np_value (np_sub saved cost)"
    using m f by blast
  have 2: "in_int64 c \<and> Retention_Cost r = of_int (wrap64 ((TP r + FP r) * c))"
    if "rc = PyInt c" for c
    using m(1) f(1) that by (auto split: if_splits)
  have 3: "Retention_Cost r = fmul (to_double (TP r + FP r)) x" if "rc = PyFloat x" for x
    using m(1) f(1) that by auto
  have 4: "Revenue_Saved r = fmul (fmul (to_double (TP r)) y) (to_float clv)
           \<and> Opportunity_Cost r = fmul (fmul (to_double (FN r)) y) (to_float clv)"
    if "rate = PyFloat y" for y
    using m(2,3) f(2,3) that by (auto simp: and_then_def np_mul_F64)
  have 5: "in_int64 a
           \<and> Revenue_Saved r = fmul (to_double (wrap64 (TP r * a))) z
           \<and> Opportunity_Cost r = fmul (to_double (wrap64 (FN r * a))) z"
    if "rate = PyInt a \<and> clv = PyFloat z" for a z
    using m(2,3) f(2,3) that by (auto simp: and_then_def split: if_splits)
  have 6: "in_int64 a \<and> in_int64 b
           \<and> Revenue_Saved r = of_int (wrap64 (wrap64 (TP r * a) * b))
           \<and> Opportunity_Cost r = of_int (wrap64 (wrap64 (FN r * a) * b))"
    if "rate = PyInt a \<and> clv = PyInt b" for a b
    using m(2,3) f(2,3) that by (auto simp: and_then_def split: if_splits)
  have 7: "Net_ROI r = fsub (rd (Revenue_Saved r)) (rd (Retention_Cost r))"
    if "(\<exists>x. rc = PyFloat x) \<or> (\<exists>y. rate = PyFloat y) \<or> (\<exists>z. clv = PyFloat z)"
    using m f that
    by (cases rc; cases rate; cases clv)
       (auto simp: and_then_def fmul_def to_double_def rd_idem split: if_splits)
  have 8: "\<exists>saved cost. Revenue_Saved r = of_int saved \<and> Retention_Cost r = of_int cost
                \<and> Net_ROI r = of_int (wrap64 (saved - cost))"
    if "rc = PyInt c \<and> rate = PyInt a \<and> clv = PyInt b" for c a b
    using m f that by (auto simp: and_then_def split: if_splits)
  have 9: "Retention_Cost r = of_int ((TP r + FP r) * c)
           \<and> Revenue_Saved r = of_int (TP r * a * b)
           \<and> Opportunity_Cost r = of_int (FN r * a * b)
           \<and> Net_ROI r = Revenue_Saved r - Retention_Cost r"
    if "rc = PyInt c \<and> rate = PyInt a \<and> clv = PyInt b
             \<and> in_int64 ((TP r + FP r) * c)
             \<and> in_int64 (TP r * a) \<and> in_int64 (TP r * a * b)
             \<and> in_int64 (FN r * a) \<and> in_int64 (FN r * a * b)
             \<and> in_int64 (TP r * a * b - (TP r + FP r) * c)" for c a b
    using m f that by (auto simp: and_then_def wrap64_id split: if_splits)
  from 1 2 3 4 5 6 7 8 9 show ?thesis by blast
qed

text \<open>
  The theorem on the scenario of the specification (an integer retention cost of \<open>50\<close>,
  a float success rate), and on the same customers with the integer retention cost
  \<open>2^62\<close>.
\<close>

theorem metrics_formulas_witness:
  "calculate_business_metrics scenario_y_true scenario_y_proba (rd (5/10)) scenario_cost_matrix
     = Inr scenario_record
   \<and> Retention_Cost scenario_record
       = of_int (wrap64 ((TP scenario_record + FP scenario_record) * 50))
   \<and> Retention_Cost scenario_record = 150
   \<and> Revenue_Saved scenario_record
       = fmul (fmul (to_double (TP scenario_record)) (1/4)) (to_float (PyInt 1200))
   \<and> Revenue_Saved scenario_record = 900
   \<and> Opportunity_Cost scenario_record = 0
   \<and> Net_ROI scenario_record
       = fsub (rd (Revenue_Saved scenario_record)) (rd (Retention_Cost scenario_record))
   \<and> Net_ROI scenario_record = 750
   \<and> calculate_business_metrics scenario_y_true scenario_y_proba (rd (5/10)) wrapping_cost_matrix
       = Inr wrapping_record
   \<and> Retention_Cost wrapping_record
       = of_int (wrap64 ((TP wrapping_record + FP wrapping_record) * 2 ^ 62))
   \<and> Retention_Cost wrapping_record = - (2 ^ 62)"
proof -
  note s = metrics_formulas [OF scenario_evaluates scenario_keys]
  note a = s [THEN conjunct2, THEN conjunct1, rule_format, OF refl, THEN conjunct2]
  note b = s [THEN conjunct2, THEN conjunct2, THEN conjunct2, THEN conjunct1, rule_format,
              OF refl, THEN conjunct1]
  have "(\<exists>x. PyInt 50 = PyFloat x) \<or> (\<exists>y. PyFloat (1/4) = PyFloat y)
          \<or> (\<exists>z. PyInt 1200 = PyFloat z)"
    by (rule disjI2, rule disjI1, rule exI, rule refl)
  note c = s [THEN conjunct2, THEN conjunct2, THEN conjunct2, THEN conjunct2, THEN conjunct2,
              THEN conjunct2, THEN conjunct1, rule_format, OF this]
  note w = metrics_formulas [OF wrapping_evaluates wrapping_keys]
  note d = w [THEN conjunct2, THEN conjunct1, rule_format, OF refl, THEN conjunct2]
  have v: "Retention_Cost scenario_record = 150" "Revenue_Saved scenario_record = 900"
    "Opportunity_Cost scenario_record = 0" "Net_ROI scenario_record = 750"
    by (simp_all add: scenario_record_def)
  have x: "Retention_Cost wrapping_record = - (2 ^ 62)"
    by (simp add: wrapping_record_def)
  from a b c d v x scenario_evaluates wrapping_evaluates show ?thesis
    by (intro conjI) (assumption | rule refl)+
qed

text \<open>
  Claim C6. In every record that \<open>calculate_business_metrics\<close> returns, the four
  contingency counts are non-negative and sum to the population size \<open>N\<close>, the common
  length of \<open>y_true\<close> and \<open>y_proba\<close>, and \<open>Customers_Contacted = TP + FP\<close>.
\<close>

theorem contingency_counts_conserved:
  assumes "calculate_business_metrics y_true y_proba t cost_matrix = Inr r"
  shows "length y_true = length y_proba
       \<and> 0 \<le> TP r \<and> 0 \<le> FP r \<and> 0 \<le> FN r \<and> 0 \<le> TN r
       \<and> TP r + FP r + FN r + TN r = int (length y_true)
       \<and> Customers_Contacted r = TP r + FP r"
proof -
  from assms obtain a b where
    len: "length y_true = length y_proba" and
    ab: "unique_labels y_true (predict_at y_proba t) = [a, b]" and
    c: "TN r = cell y_true (predict_at y_proba t) a a"
       "FP r = cell y_true (predict_at y_proba t) a b"
       "FN r = cell y_true (predict_at y_proba t) b a"
       "TP r = cell y_true (predict_at y_proba t) b b" and
    cc: "Customers_Contacted r = TP r + FP r"
    by (rule calculate_business_metrics_Inr)
  from cells_total [OF ab] len
  have "TP r + FP r + FN r + TN r = int (length y_true)"
    by (simp add: c predict_at_def)
  with len cc show ?thesis by (simp add: c cell_nonneg)
qed

text \<open>The theorem at a concrete input.\<close>

theorem contingency_counts_conserved_witness:
  "length scenario_y_true = length scenario_y_proba
   \<and> TP scenario_record + FP scenario_record + FN scenario_record + TN scenario_record = 5
   \<and> Customers_Contacted scenario_record = TP scenario_record + FP scenario_record"
  using contingency_counts_conserved [OF scenario_evaluates]
  by (simp add: scenario_y_true_def)

text \<open>
  Claim C2. Customer \<open>i\<close> is predicted positive exactly when \<open>y_proba[i] \<ge> threshold\<close>
  (a score equal to the threshold counts as positive), and the returned record counts
  each customer by the customer's own label and score: with labels \<open>0\<close> and \<open>1\<close>, \<open>TP\<close>
  and \<open>FP\<close> count the churners and non-churners whose score is at least the threshold,
  \<open>FN\<close> and \<open>TN\<close> those whose score is below it, and \<open>Customers_Contacted\<close> counts the
  scores that are at least the threshold. At threshold \<open>0\<close> with no negative score every
  customer is contacted.
\<close>

theorem inclusive_threshold:
  assumes "calculate_business_metrics y_true y_proba t cost_matrix = Inr r"
    and "set y_true \<subseteq> {0, 1}"
  shows "(\<forall>i < length y_proba.
            (predict_at y_proba t ! i = 1 \<longleftrightarrow> t \<le> y_proba ! i)
          \<and> (predict_at y_proba t ! i = 0 \<longleftrightarrow> y_proba ! i < t))
       \<and> length y_true = length y_proba
       \<and> TP r = int (length (filter (\<lambda>(y, p). y = 1 \<and> t \<le> p) (zip y_true y_proba)))
       \<and> FP r = int (length (filter (\<lambda>(y, p). y = 0 \<and> t \<le> p) (zip y_true y_proba)))
       \<and> FN r = int (length (filter (\<lambda>(y, p). y = 1 \<and> p < t) (zip y_true y_proba)))
       \<and> TN r = int (length (filter (\<lambda>(y, p). y = 0 \<and> p < t) (zip y_true y_proba)))
       \<and> Customers_Contacted r = int (length (filter (\<lambda>p. t \<le> p) y_proba))
       \<and> (t = 0 \<and> (\<forall>p \<in> set y_proba. 0 \<le> p) \<longrightarrow>
            Customers_Contacted r = int (length y_proba))"
proof -
  let ?p = "predict_at y_proba t"
  from assms(1) obtain a b where
    len: "length y_true = length y_proba" and
    ab: "unique_labels y_true ?p = [a, b]" and
    c: "TN r = cell y_true ?p a a" "FP r = cell y_true ?p a b"
       "FN r = cell y_true ?p b a" "TP r = cell y_true ?p b b" and
    cc: "Customers_Contacted r = TP r + FP r"
    by (rule calculate_business_metrics_Inr)
  from binary_labels [OF ab assms(2) predict_at_binary] have a: "a = 0" and b: "b = 1"
    by simp_all
  note cells = c [unfolded a b cells_by_score]
  have "length y_true = length ?p" using len by (simp add: predict_at_def)
  from predicted_positive_count [OF this, of 0 1 1] assms(2)
  have n: "Customers_Contacted r = int (length (filter (\<lambda>p. t \<le> p) y_proba))"
    by (simp add: cc c a b predict_at_positive_count)
  have "(\<forall>p \<in> set y_proba. 0 \<le> p) \<longrightarrow> filter (\<lambda>p. 0 \<le> p) y_proba = y_proba"
    by simp
  with n have z: "t = 0 \<and> (\<forall>p \<in> set y_proba. 0 \<le> p) \<longrightarrow>
            Customers_Contacted r = int (length y_proba)" by auto
  have i: "\<forall>i < length y_proba.
            (predict_at y_proba t ! i = 1 \<longleftrightarrow> t \<le> y_proba ! i)
          \<and> (predict_at y_proba t ! i = 0 \<longleftrightarrow> y_proba ! i < t)"
    by (auto simp: predict_at_nth)
  from i len cells n z show ?thesis by (intro conjI)
qed

text \<open>
  The theorem on two customers, the first with a score equal to the threshold and the
  second below it, and at threshold \<open>0\<close>.
\<close>

theorem inclusive_threshold_witness:
  "calculate_business_metrics [1, 0] [1/2, 1/4] (1/2) scenario_cost_matrix
     = Inr equal_score_record
   \<and> predict_at [1/2, 1/4] (1/2) ! 0 = 1
   \<and> TP equal_score_record = 1 \<and> FP equal_score_record = 0
   \<and> FN equal_score_record = 0 \<and> TN equal_score_record = 1
   \<and> TP equal_score_record
       = int (length (filter (\<lambda>(y, p). y = 1 \<and> 1/2 \<le> p) (zip [1, 0 :: int] [1/2, 1/4 :: rat])))
   \<and> TN equal_score_record
       = int (length (filter (\<lambda>(y, p). y = 0 \<and> p < 1/2) (zip [1, 0 :: int] [1/2, 1/4 :: rat])))
   \<and> calculate_business_metrics [1, 0] [0, 1/2] 0 scenario_cost_matrix = Inr boundary_record
   \<and> Customers_Contacted boundary_record = int (length (filter (\<lambda>p. 0 \<le> p) [0, 1/2 :: rat]))
   \<and> Customers_Contacted boundary_record = int (length [0, 1/2 :: rat])"
proof -
  have s: "set [1, 0 :: int] \<subseteq> {0, 1}" by simp
  from inclusive_threshold [OF equal_score_evaluates s]
  have a: "TP equal_score_record
       = int (length (filter (\<lambda>(y, p). y = 1 \<and> 1/2 \<le> p) (zip [1, 0 :: int] [1/2, 1/4 :: rat])))"
    and b: "TN equal_score_record
       = int (length (filter (\<lambda>(y, p). y = 0 \<and> p < 1/2) (zip [1, 0 :: int] [1/2, 1/4 :: rat])))"
    by blast+
  from inclusive_threshold [OF boundary_evaluates s]
  have c: "Customers_Contacted boundary_record = int (length (filter (\<lambda>p. 0 \<le> p) [0, 1/2 :: rat]))"
    by blast
  from a b c equal_score_evaluates boundary_evaluates show ?thesis
    by (simp add: predict_at_def equal_score_record_def)
qed

section \<open>Properties of find\_optimal\_threshold\<close>

lemma and_then_Inr [simp]: "and_then (Inr v) f = f v"
  by (simp add: and_then_def)

lemma and_then_Inl [simp]: "and_then (Inl e) f = Inl e"
  by (simp add: and_then_def)

lemma argmax_scan_spec:
  assumes "k < length pre" and "mp = pre ! k" and "i = length pre"
    and "\<forall>j < length pre. pre ! j \<le> mp" and "\<forall>j < k. pre ! j < mp"
  shows "argmax_scan xs i mp k < length (pre @ xs)
       \<and> (\<forall>j < length (pre @ xs). (pre @ xs) ! j \<le> (pre @ xs) ! argmax_scan xs i mp k)
       \<and> (\<forall>j < argmax_scan xs i mp k. (pre @ xs) ! j < (pre @ xs) ! argmax_scan xs i mp k)"
  using assms
proof (induction xs arbitrary: pre mp k i)
  case Nil
  then show ?case by simp
next
  case (Cons x xs)
  show ?case
  proof (cases "mp < x")
    case True
    have "argmax_scan xs (Suc i) x i < length ((pre @ [x]) @ xs)
       \<and> (\<forall>j < length ((pre @ [x]) @ xs).
            ((pre @ [x]) @ xs) ! j \<le> ((pre @ [x]) @ xs) ! argmax_scan xs (Suc i) x i)
       \<and> (\<forall>j < argmax_scan xs (Suc i) x i.
            ((pre @ [x]) @ xs) ! j < ((pre @ [x]) @ xs) ! argmax_scan xs (Suc i) x i)"
    proof (rule Cons.IH)
      show "i < length (pre @ [x])" using Cons.prems(3) by simp
      show "x = (pre @ [x]) ! i" using Cons.prems(3) by simp
      show "Suc i = length (pre @ [x])" using Cons.prems(3) by simp
      show "\<forall>j < length (pre @ [x]). (pre @ [x]) ! j \<le> x"
        using Cons.prems(4) True by (auto simp: nth_append less_Suc_eq intro: less_imp_le order.strict_trans1)
      show "\<forall>j < i. (pre @ [x]) ! j < x"
        using Cons.prems(3,4) True by (auto simp: nth_append intro: order.strict_trans1)
    qed
    with True show ?thesis by simp
  next
    case False
    have "argmax_scan xs (Suc i) mp k < length ((pre @ [x]) @ xs)
       \<and> (\<forall>j < length ((pre @ [x]) @ xs).
            ((pre @ [x]) @ xs) ! j \<le> ((pre @ [x]) @ xs) ! argmax_scan xs (Suc i) mp k)
       \<and> (\<forall>j < argmax_scan xs (Suc i) mp k.
            ((pre @ [x]) @ xs) ! j < ((pre @ [x]) @ xs) ! argmax_scan xs (Suc i) mp k)"
    proof (rule Cons.IH)
      show "k < length (pre @ [x])" using Cons.prems(1) by simp
      show "mp = (pre @ [x]) ! k" using Cons.prems(1,2) by (simp add: nth_append)
      show "Suc i = length (pre @ [x])" using Cons.prems(3) by simp
      show "\<forall>j < length (pre @ [x]). (pre @ [x]) ! j \<le> mp"
        using Cons.prems(4) False by (auto simp: nth_append less_Suc_eq)
      show "\<forall>j < k. (pre @ [x]) ! j < mp"
        using Cons.prems(1,5) by (auto simp: nth_append)
    qed
    with False show ?thesis by simp
  qed
qed

lemma idxmax_spec:
  assumes "col \<noteq> []"
  obtains i where "idxmax col = Inr i" and "i < length col"
    and "\<forall>j < length col. col ! j \<le> col ! i" and "\<forall>j < i. col ! j < col ! i"
proof -
  from assms obtain x xs where col: "col = x # xs" by (cases col) auto
  from argmax_scan_spec [of 0 "[x]" x 1 xs]
  have "argmax_scan xs 1 x 0 < length col
      \<and> (\<forall>j < length col. col ! j \<le> col ! argmax_scan xs 1 x 0)
      \<and> (\<forall>j < argmax_scan xs 1 x 0. col ! j < col ! argmax_scan xs 1 x 0)"
    by (simp add: col)
  moreover have "idxmax col = Inr (argmax_scan xs 1 x 0)" by (simp add: idxmax_def col)
  ultimately show thesis using that by blast
qed

lemma find_optimal_threshold_spec:
  assumes "sweep_df \<noteq> []" and "column_of metric = Some f"
  obtains i where "find_optimal_threshold sweep_df metric = Inr (sweep_df ! i)"
    and "i < length sweep_df"
    and "\<forall>j < length sweep_df. f (sweep_df ! j) \<le> f (sweep_df ! i)"
    and "\<forall>j < i. f (sweep_df ! j) < f (sweep_df ! i)"
proof -
  have c: "getcol sweep_df metric = Inr (map f sweep_df)"
    using assms by (simp add: getcol_def)
  from assms(1) have "map f sweep_df \<noteq> []" by simp
  then obtain i where i: "idxmax (map f sweep_df) = Inr i" "i < length (map f sweep_df)"
    "\<forall>j < length (map f sweep_df). map f sweep_df ! j \<le> map f sweep_df ! i"
    "\<forall>j < i. map f sweep_df ! j < map f sweep_df ! i"
    by (rule idxmax_spec)
  have "find_optimal_threshold sweep_df metric = Inr (sweep_df ! i)"
    using i(2) by (simp add: find_optimal_threshold_def c i(1) and_then_def loc_def)
  moreover have "\<forall>j < length sweep_df. f (sweep_df ! j) \<le> f (sweep_df ! i)"
    using i(2,3) by simp
  moreover have "\<forall>j < i. f (sweep_df ! j) < f (sweep_df ! i)"
    using i(2,4) by simp
  ultimately show thesis using that i(2) by simp
qed

lemma column_of_Net_ROI: "column_of ''Net_ROI'' = Some Net_ROI"
  by (simp add: column_of_def)


lemma find_optimal_threshold_Max:
  assumes "sweep_df \<noteq> []" and "column_of metric = Some f"
  obtains r where "find_optimal_threshold sweep_df metric = Inr r" and "r \<in> set sweep_df"
    and "f r = Max (f ` set sweep_df)"
proof -
  from assms obtain i where i: "find_optimal_threshold sweep_df metric = Inr (sweep_df ! i)"
    "i < length sweep_df" "\<forall>j < length sweep_df. f (sweep_df ! j) \<le> f (sweep_df ! i)"
    by (rule find_optimal_threshold_spec)
  have m: "sweep_df ! i \<in> set sweep_df" using i(2) by simp
  have "\<forall>y \<in> f ` set sweep_df. y \<le> f (sweep_df ! i)"
    using i(3) by (auto simp: in_set_conv_nth)
  then have "Max (f ` set sweep_df) = f (sweep_df ! i)"
    using m by (intro Max_eqI) auto
  with i(1) m show thesis using that by simp
qed

lemma find_optimal_threshold_parts:
  assumes "find_optimal_threshold df metric = Inr r"
  obtains col i where "getcol df metric = Inr col" and "idxmax col = Inr i" and "loc df i = Inr r"
  using assms unfolding find_optimal_threshold_def and_then_Inr_iff by blast

lemma example_row_simps [simp]:
  "Threshold (example_row t n) = t" "Net_ROI (example_row t n) = n"
  by (simp_all add: example_row_def)

lemma example_row_eq_iff [simp]: "example_row t n = example_row t' n' \<longleftrightarrow> t = t' \<and> n = n'"
  by (auto simp: example_row_def dest: arg_cong [where f = Threshold] arg_cong [where f = Net_ROI])

lemma tie_sweep_optimal:
  "find_optimal_threshold tie_sweep ''Net_ROI'' = Inr (example_row (1/2) 300)"
  by (simp add: find_optimal_threshold_def getcol_def column_of_Net_ROI tie_sweep_def
        idxmax_def loc_def and_then_def)

lemma other_sweep_optimal:
  "find_optimal_threshold other_sweep ''Net_ROI'' = Inr (example_row (1/4) 300)"
  by (simp add: find_optimal_threshold_def getcol_def column_of_Net_ROI other_sweep_def
        idxmax_def loc_def and_then_def)

text \<open>
  Claim C4. For a non-empty sweep table and a metric that names a column,
  \<open>find_optimal_threshold\<close> returns a row whose value of the metric is maximal, and every
  row before it has a strictly smaller value: among the rows that attain the maximum it
  is the first. In a table in ascending threshold order it therefore has the lowest
  threshold of the maximal rows.
\<close>

theorem find_optimal_threshold_first_maximum:
  assumes "sweep_df \<noteq> []" and "column_of metric = Some f"
  shows "\<exists>i < length sweep_df.
           find_optimal_threshold sweep_df metric = Inr (sweep_df ! i)
         \<and> (\<forall>j < length sweep_df. f (sweep_df ! j) \<le> f (sweep_df ! i))
         \<and> (\<forall>j < i. f (sweep_df ! j) < f (sweep_df ! i))
         \<and> (sorted (map Threshold sweep_df) \<longrightarrow>
              (\<forall>j < length sweep_df. f (sweep_df ! j) = f (sweep_df ! i) \<longrightarrow>
                 Threshold (sweep_df ! i) \<le> Threshold (sweep_df ! j)))"
proof -
  from assms obtain i where i: "find_optimal_threshold sweep_df metric = Inr (sweep_df ! i)"
    "i < length sweep_df"
    "\<forall>j < length sweep_df. f (sweep_df ! j) \<le> f (sweep_df ! i)"
    "\<forall>j < i. f (sweep_df ! j) < f (sweep_df ! i)"
    by (rule find_optimal_threshold_spec)
  have "Threshold (sweep_df ! i) \<le> Threshold (sweep_df ! j)"
    if s: "sorted (map Threshold sweep_df)" and j: "j < length sweep_df"
      and e: "f (sweep_df ! j) = f (sweep_df ! i)" for j
  proof -
    have "\<not> j < i" using i(4) e by auto
    then have "i \<le> j" by simp
    with s j have "map Threshold sweep_df ! i \<le> map Threshold sweep_df ! j"
      by (intro sorted_nth_mono) simp_all
    with j i(2) show ?thesis by simp
  qed
  with i show ?thesis by blast
qed

text \<open>The theorem on a table whose second and third rows tie at the maximum.\<close>

theorem find_optimal_threshold_first_maximum_witness:
  "tie_sweep \<noteq> [] \<and> column_of ''Net_ROI'' = Some Net_ROI
   \<and> sorted (map Threshold tie_sweep)
   \<and> Net_ROI (tie_sweep ! 1) = Net_ROI (tie_sweep ! 2)
   \<and> find_optimal_threshold tie_sweep ''Net_ROI'' = Inr (tie_sweep ! 1)"
proof -
  have ne: "tie_sweep \<noteq> []" by (simp add: tie_sweep_def)
  from find_optimal_threshold_first_maximum [OF ne column_of_Net_ROI]
  obtain i where i: "i < length tie_sweep"
    "find_optimal_threshold tie_sweep ''Net_ROI'' = Inr (tie_sweep ! i)"
    "\<forall>j < length tie_sweep. Net_ROI (tie_sweep ! j) \<le> Net_ROI (tie_sweep ! i)"
    "\<forall>j < i. Net_ROI (tie_sweep ! j) < Net_ROI (tie_sweep ! i)"
    by blast
  from i(1) consider "i = 0" | "i = 1" | "i = 2" by (auto simp: tie_sweep_def less_Suc_eq numeral_3_eq_3)
  then have "i = 1"
  proof cases
    case 1
    have "(1::nat) < length tie_sweep" by (simp add: tie_sweep_def)
    with i(3) have "Net_ROI (tie_sweep ! 1) \<le> Net_ROI (tie_sweep ! i)" by blast
    with 1 show ?thesis by (simp add: tie_sweep_def)
  next
    case 2
    then show ?thesis .
  next
    case 3
    then have "(1::nat) < i" by simp
    with i(4) have "Net_ROI (tie_sweep ! 1) < Net_ROI (tie_sweep ! i)" by blast
    with 3 show ?thesis by (simp add: tie_sweep_def)
  qed
  with i(2) ne column_of_Net_ROI show ?thesis by (simp add: tie_sweep_def)
qed

section \<open>Properties of compare\_models\<close>

lemma compare_models_unfold:
  assumes "find_optimal_threshold lr_sweep ''Net_ROI'' = Inr lr_optimal"
    and "find_optimal_threshold rf_sweep ''Net_ROI'' = Inr rf_optimal"
  shows "compare_models lr_sweep rf_sweep =
    Inr (if Net_ROI lr_optimal > Net_ROI rf_optimal
         then \<lparr> model = ''Logistic Regression'', threshold = Threshold lr_optimal,
                roi = Net_ROI lr_optimal, sweep = lr_sweep, optimal = lr_optimal \<rparr>
         else \<lparr> model = ''Random Forest'', threshold = Threshold rf_optimal,
                roi = Net_ROI rf_optimal, sweep = rf_sweep, optimal = rf_optimal \<rparr>)"
proof -
  from assms(1) obtain c1 i1 where 1: "getcol lr_sweep ''Net_ROI'' = Inr c1"
    "idxmax c1 = Inr i1" "loc lr_sweep i1 = Inr lr_optimal"
    by (rule find_optimal_threshold_parts)
  from assms(2) obtain c2 i2 where 2: "getcol rf_sweep ''Net_ROI'' = Inr c2"
    "idxmax c2 = Inr i2" "loc rf_sweep i2 = Inr rf_optimal"
    by (rule find_optimal_threshold_parts)
  show ?thesis by (simp add: compare_models_def 1 2 and_then_def)
qed

text \<open>
  Claim C5. For non-empty sweep tables \<open>lr_sweep\<close> (A) and \<open>rf_sweep\<close> (B),
  \<open>compare_models\<close> returns the entry for A exactly when A's maximum \<open>Net_ROI\<close> is
  strictly greater than B's; otherwise, in particular when the maxima are equal, it
  returns the entry for B. The entry carries the selected model's optimal threshold, its
  return, its sweep and its optimal record.
\<close>

theorem compare_models_strict:
  assumes "lr_sweep \<noteq> []" and "rf_sweep \<noteq> []"
  shows "\<exists>lr_optimal rf_optimal.
           find_optimal_threshold lr_sweep ''Net_ROI'' = Inr lr_optimal
         \<and> find_optimal_threshold rf_sweep ''Net_ROI'' = Inr rf_optimal
         \<and> Net_ROI lr_optimal = Max (Net_ROI ` set lr_sweep)
         \<and> Net_ROI rf_optimal = Max (Net_ROI ` set rf_sweep)
         \<and> compare_models lr_sweep rf_sweep =
             Inr (if Max (Net_ROI ` set lr_sweep) > Max (Net_ROI ` set rf_sweep)
                  then \<lparr> model = ''Logistic Regression'', threshold = Threshold lr_optimal,
                         roi = Net_ROI lr_optimal, sweep = lr_sweep, optimal = lr_optimal \<rparr>
                  else \<lparr> model = ''Random Forest'', threshold = Threshold rf_optimal,
                         roi = Net_ROI rf_optimal, sweep = rf_sweep, optimal = rf_optimal \<rparr>)"
proof -
  from assms(1) column_of_Net_ROI obtain a where
    a: "find_optimal_threshold lr_sweep ''Net_ROI'' = Inr a"
       "Net_ROI a = Max (Net_ROI ` set lr_sweep)"
    by (rule find_optimal_threshold_Max)
  from assms(2) column_of_Net_ROI obtain b where
    b: "find_optimal_threshold rf_sweep ''Net_ROI'' = Inr b"
       "Net_ROI b = Max (Net_ROI ` set rf_sweep)"
    by (rule find_optimal_threshold_Max)
  from compare_models_unfold [OF a(1) b(1)] a b show ?thesis by auto
qed

text \<open>The theorem on two tables with equal maxima, and on a pair where A wins.\<close>

theorem compare_models_strict_witness:
  "tie_sweep \<noteq> [] \<and> other_sweep \<noteq> []
   \<and> Max (Net_ROI ` set tie_sweep) = Max (Net_ROI ` set other_sweep)
   \<and> compare_models tie_sweep other_sweep =
       Inr \<lparr> model = ''Random Forest'', threshold = 1/4, roi = 300,
             sweep = other_sweep, optimal = example_row (1/4) 300 \<rparr>
   \<and> compare_models other_sweep [example_row (1/2) 200] =
       Inr \<lparr> model = ''Logistic Regression'', threshold = 1/4, roi = 300,
             sweep = other_sweep, optimal = example_row (1/4) 300 \<rparr>"
proof -
  have ne: "tie_sweep \<noteq> []" "other_sweep \<noteq> []" "[example_row (1/2) 200] \<noteq> []"
    by (simp_all add: tie_sweep_def other_sweep_def)
  have m: "Max (Net_ROI ` set tie_sweep) = 300" "Max (Net_ROI ` set other_sweep) = 300"
    "Max (Net_ROI ` set [example_row (1/2) 200]) = 200"
    by (simp_all add: tie_sweep_def other_sweep_def)
  have s: "find_optimal_threshold [example_row (1/2) 200] ''Net_ROI'' = Inr (example_row (1/2) 200)"
    by (simp add: find_optimal_threshold_def getcol_def column_of_Net_ROI
        idxmax_def loc_def and_then_def)
  from compare_models_strict [OF ne(1,2)] compare_models_strict [OF ne(2,3)]
  show ?thesis
    by (simp add: ne m tie_sweep_optimal other_sweep_optimal s)
qed

section \<open>Properties of compare\_strategies\<close>

text \<open>
  With a float CLV the revenue saved is a \<open>float64\<close>, and so is the net return, whatever
  the types of the other two entries.
\<close>

lemma float_clv_float_roi:
  assumes "calculate_business_metrics y_true y_proba t cost_matrix = Inr r"
    and "cost_matrix ''CLV'' = Some (PyFloat z)"
  obtains rc rate cost saved where
    "cost_matrix ''RETENTION_COST'' = Some rc"
    "cost_matrix ''RETENTION_SUCCESS_RATE'' = Some rate"
    "np_mul (I64 (TP r + FP r)) rc = Inr cost"
    "and_then (np_mul (I64 (TP r)) rate) (\<lambda>x. np_mul x (PyFloat z)) = Inr (F64 saved)"
    "np_sub (F64 saved) cost = F64 (Net_ROI r)"
proof -
  from assms(1) obtain rc rate clv cost saved where
    k: "cost_matrix ''RETENTION_COST'' = Some rc"
       "cost_matrix ''RETENTION_SUCCESS_RATE'' = Some rate"
       "cost_matrix ''CLV'' = Some clv"
    and m: "np_mul (I64 (TP r + FP r)) rc = Inr cost"
       "and_then (np_mul (I64 (TP r)) rate) (\<lambda>x. np_mul x clv) = Inr saved"
    and f: "Net_ROI r = np_value (np_sub saved cost)"
    by (rule calculate_business_metrics_Inr)
  from k(3) assms(2) have clv: "clv = PyFloat z" by simp
  from m(2) obtain v where v: "np_mul (I64 (TP r)) rate = Inr v" "np_mul v (PyFloat z) = Inr saved"
    unfolding clv by (auto simp: and_then_Inr_iff)
  from v(2) obtain s where s: "saved = F64 s" by (cases v) auto
  have "np_sub (F64 s) cost = F64 (Net_ROI r)"
    using f unfolding s by (cases cost) simp_all
  with k(1,2) m(1) m(2) [unfolded clv s] show thesis by (rule that)
qed








section \<open>Properties of segment\_threshold\_analysis\<close>





section \<open>Failures of calculate\_business\_metrics\<close>



lemma single_label_sorted: "sorted_list_of_set {a :: int} = [a]"
  by simp

lemma single_class_raises:
  assumes "length y_true = length y_proba"
    and "set y_true \<union> set (predict_at y_proba t) = {a}"
  shows "calculate_business_metrics y_true y_proba t cost_matrix = Inl ValueError"
proof -
  have l: "unique_labels y_true (predict_at y_proba t) = [a]"
    by (simp only: unique_labels_def assms(2) single_label_sorted)
  have n: "length y_true = length (predict_at y_proba t)"
    using assms(1) by (simp add: predict_at_def)
  show ?thesis
    unfolding calculate_business_metrics_def Let_def confusion_matrix_def l
    using n by (simp add: ravel_def)
qed










section \<open>The threshold grid and the sweep\<close>

lemma rne_eqI_tie:
  assumes "\<bar>q - of_int m\<bar> = 1/2" and "even m"
  shows "rne q = m"
proof -
  consider "q = of_int m + 1/2" | "q = of_int m - 1/2" using assms(1) by (auto simp: abs_if split: if_splits)
  then show ?thesis
  proof cases
    case 1
    then have "\<lfloor>q\<rfloor> = m" by (simp add: floor_unique)
    with 1 assms(2) show ?thesis by (simp add: rne_def)
  next
    case 2
    then have f: "\<lfloor>q\<rfloor> = m - 1" by (simp add: floor_unique)
    with 2 assms(2) show ?thesis by (simp add: rne_def)
  qed
qed

lemma rd_eqI_tie:
  assumes "0 < x" and "2 ^ 52 \<le> x / 2 powi e" and "x / 2 powi e < 2 ^ 53"
    and "\<bar>x / 2 powi e - of_int m\<bar> = 1/2" and "even m"
  shows "rd x = of_int m * 2 powi e"
proof -
  have u: "(0::rat) < 2 powi e" by simp
  have "2 ^ 52 * 2 powi e \<le> x" using assms(2) by (simp add: pos_le_divide_eq [OF u])
  then have lo: "2 powi (e + 52) \<le> \<bar>x\<bar>"
    using assms(1) two_powi_shift52 [of "e + 52"] by simp
  have "x < 2 ^ 53 * 2 powi e" using assms(3) by (simp add: pos_divide_less_eq [OF u])
  then have hi: "\<bar>x\<bar> < 2 powi (e + 52 + 1)"
    using assms(1) two_powi_shift53 [of "e + 52"] by simp
  from expo_unique [OF lo hi] have "expo x - 52 = e" by simp
  with rd_pos [OF assms(1)] rne_eqI_tie [OF assms(4,5)] show ?thesis by simp
qed


lemma rd_tenth: "rd (1/10) = 3602879701896397 / 36028797018963968"
  using rd_eqI [of "1/10" "-56" 7205759403792794] by simp


lemma default_grid_rounding:
  shows "rd (1 / 10) = 3602879701896397 / 36028797018963968"
    and "rd (19 / 20) = 4278419646001971 / 4503599627370496"
    and "rd (1 / 20) = 3602879701896397 / 72057594037927936"
    and "rd (30624477466119371 / 36028797018963968) = 7656119366529843 / 9007199254740992"
    and "rd (61248954932238744 / 3602879701896397) = 17"
    and "rd (10808639105689191 / 72057594037927936) = 1351079888211149 / 9007199254740992"
    and "rd (1801439850948199 / 36028797018963968) = 1801439850948199 / 36028797018963968"
    and "rd (1801439850948199 / 18014398509481984) = 1801439850948199 / 18014398509481984"
    and "rd (7205759403792795 / 36028797018963968) = 7205759403792795 / 36028797018963968"
    and "rd (5404319552844597 / 36028797018963968) = 5404319552844597 / 36028797018963968"
    and "rd (4503599627370497 / 18014398509481984) = 4503599627370497 / 18014398509481984"
    and "rd (1801439850948199 / 9007199254740992) = 1801439850948199 / 9007199254740992"
    and "rd (10808639105689193 / 36028797018963968) = 1351079888211149 / 4503599627370496"
    and "rd (9007199254740995 / 36028797018963968) = 2251799813685249 / 9007199254740992"
    and "rd (12610078956637393 / 36028797018963968) = 788129934789837 / 2251799813685248"
    and "rd (5404319552844597 / 18014398509481984) = 5404319552844597 / 18014398509481984"
    and "rd (14411518807585591 / 36028797018963968) = 1801439850948199 / 4503599627370496"
    and "rd (16212958658533789 / 36028797018963968) = 4053239664633447 / 9007199254740992"
    and "rd (1801439850948199 / 4503599627370496) = 1801439850948199 / 4503599627370496"
    and "rd (18014398509481989 / 36028797018963968) = 4503599627370497 / 9007199254740992"
    and "rd (16212958658533791 / 36028797018963968) = 506654958079181 / 1125899906842624"
    and "rd (19815838360430189 / 36028797018963968) = 4953959590107547 / 9007199254740992"
    and "rd (9007199254740995 / 18014398509481984) = 2251799813685249 / 4503599627370496"
    and "rd (21617278211378389 / 36028797018963968) = 5404319552844597 / 9007199254740992"
    and "rd (23418718062326585 / 36028797018963968) = 2927339757790823 / 4503599627370496"
    and "rd (5404319552844597 / 9007199254740992) = 5404319552844597 / 9007199254740992"
    and "rd (25220157913274785 / 36028797018963968) = 788129934789837 / 1125899906842624"
    and "rd (23418718062326587 / 36028797018963968) = 5854679515581647 / 9007199254740992"
    and "rd (27021597764222985 / 36028797018963968) = 3377699720527873 / 4503599627370496"
    and "rd (12610078956637393 / 18014398509481984) = 788129934789837 / 1125899906842624"
    and "rd (28823037615171181 / 36028797018963968) = 7205759403792795 / 9007199254740992"
    and "rd (30624477466119381 / 36028797018963968) = 7656119366529845 / 9007199254740992"
    and "rd (1801439850948199 / 2251799813685248) = 1801439850948199 / 2251799813685248"
    and "rd (32425917317067581 / 36028797018963968) = 8106479329266895 / 9007199254740992"
proof -
  show "rd (1 / 10) = 3602879701896397 / 36028797018963968"
    using rd_eqI [of "1 / 10" "-56" 7205759403792794] by simp
  show "rd (19 / 20) = 4278419646001971 / 4503599627370496"
    using rd_eqI [of "19 / 20" "-53" 8556839292003942] by simp
  show "rd (1 / 20) = 3602879701896397 / 72057594037927936"
    using rd_eqI [of "1 / 20" "-57" 7205759403792794] by simp
  show "rd (30624477466119371 / 36028797018963968) = 7656119366529843 / 9007199254740992"
    using rd_eqI [of "30624477466119371 / 36028797018963968" "-53" 7656119366529843] by simp
  show "rd (61248954932238744 / 3602879701896397) = 17"
    using rd_eqI [of "61248954932238744 / 3602879701896397" "-48" 4785074604081152] by simp
  show "rd (10808639105689191 / 72057594037927936) = 1351079888211149 / 9007199254740992"
    using rd_eqI_tie [of "10808639105689191 / 72057594037927936" "-55" 5404319552844596] by simp
  show "rd (1801439850948199 / 36028797018963968) = 1801439850948199 / 36028797018963968"
    using rd_exact [of 1801439850948199 "-55"] by simp
  show "rd (1801439850948199 / 18014398509481984) = 1801439850948199 / 18014398509481984"
    using rd_exact [of 1801439850948199 "-54"] by simp
  show "rd (7205759403792795 / 36028797018963968) = 7205759403792795 / 36028797018963968"
    using rd_exact [of 7205759403792795 "-55"] by simp
  show "rd (5404319552844597 / 36028797018963968) = 5404319552844597 / 36028797018963968"
    using rd_exact [of 5404319552844597 "-55"] by simp
  show "rd (4503599627370497 / 18014398509481984) = 4503599627370497 / 18014398509481984"
    using rd_exact [of 4503599627370497 "-54"] by simp
  show "rd (1801439850948199 / 9007199254740992) = 1801439850948199 / 9007199254740992"
    using rd_exact [of 1801439850948199 "-53"] by simp
  show "rd (10808639105689193 / 36028797018963968) = 1351079888211149 / 4503599627370496"
    using rd_eqI_tie [of "10808639105689193 / 36028797018963968" "-54" 5404319552844596] by simp
  show "rd (9007199254740995 / 36028797018963968) = 2251799813685249 / 9007199254740992"
    using rd_eqI_tie [of "9007199254740995 / 36028797018963968" "-54" 4503599627370498] by simp
  show "rd (12610078956637393 / 36028797018963968) = 788129934789837 / 2251799813685248"
    using rd_eqI_tie [of "12610078956637393 / 36028797018963968" "-54" 6305039478318696] by simp
  show "rd (5404319552844597 / 18014398509481984) = 5404319552844597 / 18014398509481984"
    using rd_exact [of 5404319552844597 "-54"] by simp
  show "rd (14411518807585591 / 36028797018963968) = 1801439850948199 / 4503599627370496"
    using rd_eqI_tie [of "14411518807585591 / 36028797018963968" "-54" 7205759403792796] by simp
  show "rd (16212958658533789 / 36028797018963968) = 4053239664633447 / 9007199254740992"
    using rd_eqI_tie [of "16212958658533789 / 36028797018963968" "-54" 8106479329266894] by simp
  show "rd (1801439850948199 / 4503599627370496) = 1801439850948199 / 4503599627370496"
    using rd_exact [of 1801439850948199 "-52"] by simp
  show "rd (18014398509481989 / 36028797018963968) = 4503599627370497 / 9007199254740992"
    using rd_eqI [of "18014398509481989 / 36028797018963968" "-53" 4503599627370497] by simp
  show "rd (16212958658533791 / 36028797018963968) = 506654958079181 / 1125899906842624"
    using rd_eqI_tie [of "16212958658533791 / 36028797018963968" "-54" 8106479329266896] by simp
  show "rd (19815838360430189 / 36028797018963968) = 4953959590107547 / 9007199254740992"
    using rd_eqI [of "19815838360430189 / 36028797018963968" "-53" 4953959590107547] by simp
  show "rd (9007199254740995 / 18014398509481984) = 2251799813685249 / 4503599627370496"
    using rd_eqI_tie [of "9007199254740995 / 18014398509481984" "-53" 4503599627370498] by simp
  show "rd (21617278211378389 / 36028797018963968) = 5404319552844597 / 9007199254740992"
    using rd_eqI [of "21617278211378389 / 36028797018963968" "-53" 5404319552844597] by simp
  show "rd (23418718062326585 / 36028797018963968) = 2927339757790823 / 4503599627370496"
    using rd_eqI [of "23418718062326585 / 36028797018963968" "-53" 5854679515581646] by simp
  show "rd (5404319552844597 / 9007199254740992) = 5404319552844597 / 9007199254740992"
    using rd_exact [of 5404319552844597 "-53"] by simp
  show "rd (25220157913274785 / 36028797018963968) = 788129934789837 / 1125899906842624"
    using rd_eqI [of "25220157913274785 / 36028797018963968" "-53" 6305039478318696] by simp
  show "rd (23418718062326587 / 36028797018963968) = 5854679515581647 / 9007199254740992"
    using rd_eqI [of "23418718062326587 / 36028797018963968" "-53" 5854679515581647] by simp
  show "rd (27021597764222985 / 36028797018963968) = 3377699720527873 / 4503599627370496"
    using rd_eqI [of "27021597764222985 / 36028797018963968" "-53" 6755399441055746] by simp
  show "rd (12610078956637393 / 18014398509481984) = 788129934789837 / 1125899906842624"
    using rd_eqI_tie [of "12610078956637393 / 18014398509481984" "-53" 6305039478318696] by simp
  show "rd (28823037615171181 / 36028797018963968) = 7205759403792795 / 9007199254740992"
    using rd_eqI [of "28823037615171181 / 36028797018963968" "-53" 7205759403792795] by simp
  show "rd (30624477466119381 / 36028797018963968) = 7656119366529845 / 9007199254740992"
    using rd_eqI [of "30624477466119381 / 36028797018963968" "-53" 7656119366529845] by simp
  show "rd (1801439850948199 / 2251799813685248) = 1801439850948199 / 2251799813685248"
    using rd_exact [of 1801439850948199 "-51"] by simp
  show "rd (32425917317067581 / 36028797018963968) = 8106479329266895 / 9007199254740992"
    using rd_eqI [of "32425917317067581 / 36028797018963968" "-53" 8106479329266895] by simp
qed



lemma upt_17: "[0..<17] = [0, 1, 2, 3, 4, 5, 6, 7, 8, 9, 10, 11, 12, 13, 14, 15, 16 :: nat]"
  by code_simp


lemma default_grid:
  "arange default_start default_end default_step =
     Inr [3602879701896397 / 36028797018963968,
        1351079888211149 / 9007199254740992,
        7205759403792795 / 36028797018963968,
        4503599627370497 / 18014398509481984,
        1351079888211149 / 4503599627370496,
        788129934789837 / 2251799813685248,
        1801439850948199 / 4503599627370496,
        4053239664633447 / 9007199254740992,
        4503599627370497 / 9007199254740992,
        4953959590107547 / 9007199254740992,
        5404319552844597 / 9007199254740992,
        2927339757790823 / 4503599627370496,
        788129934789837 / 1125899906842624,
        3377699720527873 / 4503599627370496,
        7205759403792795 / 9007199254740992,
        7656119366529845 / 9007199254740992,
        8106479329266895 / 9007199254740992]"
  by (simp add: arange_def Let_def default_start_def default_end_def default_step_def
        fadd_def fsub_def fmul_def fdiv_def default_grid_rounding upt_17)



lemma no_churner_call_raises:
  "calculate_business_metrics [0, 0] [1/16, 1/32] (rd (1/10)) scenario_cost_matrix
     = Inl ValueError"
proof -
  have p: "predict_at [1/16, 1/32] (rd (1/10)) = [0, 0]"
    by (simp add: predict_at_def rd_tenth)
  show ?thesis
    by (rule single_class_raises [where a = 0]) (simp_all add: p)
qed

lemma sweep_loop_Inr_iff:
  "sweep_loop y_true y_proba cm ts acc = Inr tbl \<longleftrightarrow>
     (\<exists>rs. tbl = acc @ rs
         \<and> list_all2 (\<lambda>t r. calculate_business_metrics y_true y_proba t cm = Inr r) ts rs)"
proof (induction ts arbitrary: acc)
  case Nil
  then show ?case by auto
next
  case (Cons t ts)
  show ?case
    by (auto simp: and_then_Inr_iff Cons.IH list_all2_Cons1)
qed

lemma threshold_sweep_Inr_iff:
  assumes "arange start end step = Inr grid"
  shows "threshold_sweep y_true y_proba cm start end step = Inr tbl \<longleftrightarrow>
     list_all2 (\<lambda>t r. calculate_business_metrics y_true y_proba t cm = Inr r) grid tbl"
  by (simp add: threshold_sweep_def assms sweep_loop_Inr_iff)


text \<open>
  Every row of a segment's sweep holds a \<open>float64\<close> net return: it is a difference whose
  left operand is a \<open>float64\<close>.
\<close>

lemma segment_matrix_clv:
  assumes "segment_cost_matrix h base segment_clv = (h', Inr seg)"
  shows "(h' ! seg) ''CLV'' = Some (PyFloat segment_clv)"
  using assms
  by (auto simp: segment_cost_matrix_def dict_copy_def setitem_def Let_def nth_append
      split: sum.splits)

lemma segment_sweep_float:
  assumes "segment_threshold_analysis h y_true y_proba segment_clv base thresholds
             = (h', Inr tbl)"
    and "r \<in> set tbl"
  shows "\<exists>saved cost. np_sub (F64 saved) cost = F64 (Net_ROI r)"
proof -
  from assms(1) obtain seg where
    m: "segment_cost_matrix h base segment_clv = (h', Inr seg)" and
    s: "threshold_sweep y_true y_proba (h' ! seg) default_start default_end default_step
          = Inr tbl"
    by (auto simp: segment_threshold_analysis_def split: prod.splits sum.splits)
  from s obtain grid where
    "list_all2 (\<lambda>t r. calculate_business_metrics y_true y_proba t (h' ! seg) = Inr r) grid tbl"
    by (auto simp: threshold_sweep_Inr_iff [OF default_grid])
  with assms(2) obtain t where
    "calculate_business_metrics y_true y_proba t (h' ! seg) = Inr r"
    by (auto simp: list_all2_conv_all_nth in_set_conv_nth)
  from this segment_matrix_clv [OF m] show ?thesis
    by (rule float_clv_float_roi) blast
qed










text \<open>
  Claim C9 says that every grid point yields a record, also where labels and
  predictions contain one class only. Two customers who did not churn, with scores below
  \<open>0.1\<close>: at the first default grid point nobody is contacted, the confusion matrix is
  1 by 1, the unpacking into four counts raises \<open>ValueError\<close>, and the whole sweep raises
  it and returns no table.
\<close>

theorem single_class_sweep_raises:
  "calculate_business_metrics [0, 0] [1/16, 1/32] default_start scenario_cost_matrix
     = Inl ValueError
   \<and> threshold_sweep [0, 0] [1/16, 1/32] scenario_cost_matrix
       default_start default_end default_step = Inl ValueError"
proof -
  have a: "calculate_business_metrics [0, 0] [1/16, 1/32] default_start scenario_cost_matrix
     = Inl ValueError"
    using no_churner_call_raises by (simp only: default_start_def)
  have "threshold_sweep [0, 0] [1/16, 1/32] scenario_cost_matrix
       default_start default_end default_step = Inl ValueError"
    unfolding threshold_sweep_def default_grid
    using a [unfolded default_start_def rd_tenth] by simp
  with a show ?thesis by simp
qed

end
